theory Spec2Isabelle
  imports Complex_Main "HOL-Library.Sublist" "HOL-Library.Word"
begin

section \<open>Go strings\<close>

text \<open>
  A Go string is a sequence of bytes; \<^typ>\<open>string\<close> is a list of 8-bit characters.
  \<open>strings.HasPrefix\<close>, \<open>strings.TrimPrefix\<close> and \<open>strings.ReplaceAll\<close> (used with a
  one-byte pattern only) are written out.
\<close>

definition HasPrefix :: "string \<Rightarrow> string \<Rightarrow> bool" where
  "HasPrefix s p = (take (length p) s = p)"

definition TrimPrefix :: "string \<Rightarrow> string \<Rightarrow> string" where
  "TrimPrefix s p = (if HasPrefix s p then drop (length p) s else s)"

fun ReplaceAll1 :: "string \<Rightarrow> char \<Rightarrow> string \<Rightarrow> string" where
  "ReplaceAll1 [] old new = []"
| "ReplaceAll1 (ch # s) old new =
     (if ch = old then new @ ReplaceAll1 s old new else ch # ReplaceAll1 s old new)"

section \<open>Selector Resolver (selectors.go)\<close>

datatype SelectorStrategy =
    StrategyCSSSelector
  | StrategyXPath
  | StrategyLinkText
  | StrategyPartialLinkText
  | StrategyID
  | StrategyClassName
  | StrategyTagName
  | StrategyText
  | StrategyDataTestID
  | StrategyAriaLabel
  | StrategyRole
  | StrategyVisibleText

text \<open>The string value of each strategy constant (\<open>string(parsed.Strategy)\<close>).\<close>

fun strategy_string :: "SelectorStrategy \<Rightarrow> string" where
  "strategy_string StrategyCSSSelector = ''css selector''"
| "strategy_string StrategyXPath = ''xpath''"
| "strategy_string StrategyLinkText = ''link text''"
| "strategy_string StrategyPartialLinkText = ''partial link text''"
| "strategy_string StrategyID = ''id''"
| "strategy_string StrategyClassName = ''class name''"
| "strategy_string StrategyTagName = ''tag name''"
| "strategy_string StrategyText = ''text''"
| "strategy_string StrategyDataTestID = ''data-testid''"
| "strategy_string StrategyAriaLabel = ''aria-label''"
| "strategy_string StrategyRole = ''role''"
| "strategy_string StrategyVisibleText = ''visible-text''"

record ParsedSelector =
  Strategy :: SelectorStrategy
  Value :: string
  IsNative :: bool

definition ParseSelector :: "string \<Rightarrow> ParsedSelector" where
  "ParseSelector selector =
    (if HasPrefix selector ''xpath='' then
       \<lparr>Strategy = StrategyXPath, Value = TrimPrefix selector ''xpath='', IsNative = True\<rparr>
     else if HasPrefix selector ''//'' \<or> HasPrefix selector ''(//'' then
       \<lparr>Strategy = StrategyXPath, Value = selector, IsNative = True\<rparr>
     else if HasPrefix selector ''text='' then
       \<lparr>Strategy = StrategyText, Value = TrimPrefix selector ''text='', IsNative = False\<rparr>
     else if HasPrefix selector ''visible-text='' then
       \<lparr>Strategy = StrategyVisibleText, Value = TrimPrefix selector ''visible-text='',
        IsNative = False\<rparr>
     else if HasPrefix selector ''id='' then
       \<lparr>Strategy = StrategyID, Value = TrimPrefix selector ''id='', IsNative = True\<rparr>
     else if HasPrefix selector ''class='' then
       \<lparr>Strategy = StrategyClassName, Value = TrimPrefix selector ''class='', IsNative = True\<rparr>
     else if HasPrefix selector ''tag='' then
       \<lparr>Strategy = StrategyTagName, Value = TrimPrefix selector ''tag='', IsNative = True\<rparr>
     else if HasPrefix selector ''link='' then
       \<lparr>Strategy = StrategyLinkText, Value = TrimPrefix selector ''link='', IsNative = True\<rparr>
     else if HasPrefix selector ''partial-link='' then
       \<lparr>Strategy = StrategyPartialLinkText, Value = TrimPrefix selector ''partial-link='',
        IsNative = True\<rparr>
     else if HasPrefix selector ''data-testid='' then
       \<lparr>Strategy = StrategyDataTestID, Value = TrimPrefix selector ''data-testid='',
        IsNative = False\<rparr>
     else if HasPrefix selector ''aria-label='' then
       \<lparr>Strategy = StrategyAriaLabel, Value = TrimPrefix selector ''aria-label='',
        IsNative = False\<rparr>
     else if HasPrefix selector ''role='' then
       \<lparr>Strategy = StrategyRole, Value = TrimPrefix selector ''role='', IsNative = False\<rparr>
     else
       \<lparr>Strategy = StrategyCSSSelector, Value = selector, IsNative = True\<rparr>)"

subsection \<open>The prefix table of the specification\<close>

text \<open>
  The ordered prefix table as the specification words it: each row is a literal prefix, the
  strategy it selects, the native flag, and whether the prefix is stripped from the value
  (the two bare XPath forms keep the whole input). \<open>spec_first_match\<close> walks the table in
  order and falls back to the CSS selector.
\<close>

definition spec_prefix_table :: "(string \<times> SelectorStrategy \<times> bool \<times> bool) list" where
  "spec_prefix_table =
    [(''xpath='', StrategyXPath, True, True),
     (''//'', StrategyXPath, True, False),
     (''(//'', StrategyXPath, True, False),
     (''text='', StrategyText, False, True),
     (''visible-text='', StrategyVisibleText, False, True),
     (''id='', StrategyID, True, True),
     (''class='', StrategyClassName, True, True),
     (''tag='', StrategyTagName, True, True),
     (''link='', StrategyLinkText, True, True),
     (''partial-link='', StrategyPartialLinkText, True, True),
     (''data-testid='', StrategyDataTestID, False, True),
     (''aria-label='', StrategyAriaLabel, False, True),
     (''role='', StrategyRole, False, True)]"

fun spec_first_match ::
  "(string \<times> SelectorStrategy \<times> bool \<times> bool) list \<Rightarrow> string \<Rightarrow> ParsedSelector" where
  "spec_first_match [] s = \<lparr>Strategy = StrategyCSSSelector, Value = s, IsNative = True\<rparr>"
| "spec_first_match ((p, strat, native, strip) # rows) s =
     (if prefix p s then
        \<lparr>Strategy = strat, Value = (if strip then drop (length p) s else s), IsNative = native\<rparr>
      else spec_first_match rows s)"

subsection \<open>Generated lookup scripts\<close>

text \<open>
  The script templates are Go raw string literals; \<open>nl n\<close> is the line break of the
  source followed by its \<open>n\<close> tabs of indentation, and each \<open>%s\<close> of
  \<open>fmt.Sprintf\<close> is the spliced argument.
\<close>

definition nl :: "nat \<Rightarrow> string" where
  "nl n = CHR 0x0A # replicate n (CHR 0x09)"

definition generateSelectorScript :: "SelectorStrategy \<Rightarrow> string \<Rightarrow> string" where
  \<open>generateSelectorScript strategy val =
    (let escapedValue = ReplaceAll1 val (CHR 0x22) [CHR 0x5C, CHR 0x22] in
     case strategy of
       StrategyText \<Rightarrow>
         nl 3 @ ''// Find the most specific (deepest) element with exact matching text'' @
         nl 3 @ ''var elements = Array.from(document.querySelectorAll('*'));'' @
         nl 3 @ ''var matches = elements.filter(function(el) {'' @
         nl 4 @ ''// Get only the direct text content (not from children)'' @
         nl 4 @ ''var directText = Array.from(el.childNodes)'' @
         nl 5 @ ''.filter(function(node) { return node.nodeType === 3; })'' @
         nl 5 @ ''.map(function(node) { return node.textContent; })'' @
         nl 5 @ ''.join('' @ [CHR 0x27, CHR 0x27] @ '').trim();'' @
         nl 4 @ ''return directText === "'' @ escapedValue @ ''" || el.textContent.trim() === "'' @ escapedValue @ ''";'' @
         nl 3 @ ''});'' @
         nl 3 @ ''// Return the deepest (most specific) match'' @
         nl 3 @ ''if (matches.length > 0) {'' @
         nl 4 @ ''return matches[matches.length - 1];'' @
         nl 3 @ ''}'' @
         nl 3 @ ''return null;'' @
         nl 2
     | StrategyVisibleText \<Rightarrow>
         nl 3 @ ''// Find the most specific visible element containing the text'' @
         nl 3 @ ''var elements = Array.from(document.querySelectorAll('*'));'' @
         nl 3 @ ''var matches = elements.filter(function(el) {'' @
         nl 4 @ ''// Check visibility'' @
         nl 4 @ ''if (el.offsetWidth === 0 || el.offsetHeight === 0) return false;'' @
         nl 4 @ ''var style = window.getComputedStyle(el);'' @
         nl 4 @ ''if (style.display === 'none' || style.visibility === 'hidden') return false;'' @
         nl 4 @
         nl 4 @ ''// Check text content'' @
         nl 4 @ ''var text = el.textContent ? el.textContent.trim() : '' @ [CHR 0x27, CHR 0x27] @ '';'' @
         nl 4 @ ''return text.includes("'' @ escapedValue @ ''");'' @
         nl 3 @ ''});'' @
         nl 3 @
         nl 3 @ ''// Return the smallest (most specific) element'' @
         nl 3 @ ''// Sort by total descendants count (fewer = more specific)'' @
         nl 3 @ ''matches.sort(function(a, b) {'' @
         nl 4 @ ''return a.getElementsByTagName('*').length - b.getElementsByTagName('*').length;'' @
         nl 3 @ ''});'' @
         nl 3 @
         nl 3 @ ''return matches.length > 0 ? matches[0] : null;'' @
         nl 2
     | StrategyDataTestID \<Rightarrow>
         ''return document.querySelector('[data-testid="'' @ escapedValue @ ''"]');''
     | StrategyAriaLabel \<Rightarrow>
         ''return document.querySelector('[aria-label="'' @ escapedValue @ ''"]');''
     | StrategyRole \<Rightarrow>
         ''return document.querySelector('[role="'' @ escapedValue @ ''"]');''
     | _ \<Rightarrow>
         ''return document.querySelector("'' @ escapedValue @ ''");'')\<close>

definition generateAllSelectorScript :: "SelectorStrategy \<Rightarrow> string \<Rightarrow> string" where
  \<open>generateAllSelectorScript strategy val =
    (let escapedValue = ReplaceAll1 val (CHR 0x22) [CHR 0x5C, CHR 0x22] in
     case strategy of
       StrategyText \<Rightarrow>
         nl 3 @ ''var elements = Array.from(document.querySelectorAll('*'));'' @
         nl 3 @ ''return elements.filter(function(el) {'' @
         nl 4 @ ''var directText = Array.from(el.childNodes)'' @
         nl 5 @ ''.filter(function(node) { return node.nodeType === 3; })'' @
         nl 5 @ ''.map(function(node) { return node.textContent; })'' @
         nl 5 @ ''.join('' @ [CHR 0x27, CHR 0x27] @ '').trim();'' @
         nl 4 @ ''return directText === "'' @ escapedValue @ ''" || el.textContent.trim() === "'' @ escapedValue @ ''";'' @
         nl 3 @ ''});'' @
         nl 2
     | StrategyVisibleText \<Rightarrow>
         nl 3 @ ''var elements = Array.from(document.querySelectorAll('*'));'' @
         nl 3 @ ''return elements.filter(function(el) {'' @
         nl 4 @ ''if (el.offsetWidth === 0 || el.offsetHeight === 0) return false;'' @
         nl 4 @ ''var style = window.getComputedStyle(el);'' @
         nl 4 @ ''if (style.display === 'none' || style.visibility === 'hidden') return false;'' @
         nl 4 @ ''var text = el.textContent ? el.textContent.trim() : '' @ [CHR 0x27, CHR 0x27] @ '';'' @
         nl 4 @ ''return text.includes("'' @ escapedValue @ ''");'' @
         nl 3 @ ''});'' @
         nl 2
     | StrategyDataTestID \<Rightarrow>
         ''return Array.from(document.querySelectorAll('[data-testid="'' @ escapedValue @ ''"]'));''
     | StrategyAriaLabel \<Rightarrow>
         ''return Array.from(document.querySelectorAll('[aria-label="'' @ escapedValue @ ''"]'));''
     | StrategyRole \<Rightarrow>
         ''return Array.from(document.querySelectorAll('[role="'' @ escapedValue @ ''"]'));''
     | _ \<Rightarrow>
         ''return Array.from(document.querySelectorAll("'' @ escapedValue @ ''"));'')\<close>

subsection \<open>Generated wait conditions (generateWaitScript, webdriver.go)\<close>

definition findElementScript_of :: "ParsedSelector \<Rightarrow> string" where
  \<open>findElementScript_of parsed =
    (if IsNative parsed then
       (case Strategy parsed of
          StrategyCSSSelector \<Rightarrow>
            ''document.querySelector("'' @
              ReplaceAll1 (Value parsed) (CHR 0x22) [CHR 0x5C, CHR 0x22] @ ''")''
        | StrategyXPath \<Rightarrow>
            (let escapedXPath = ReplaceAll1 (Value parsed) (CHR 0x27) [CHR 0x5C, CHR 0x27] in
             ''document.evaluate('' @ [CHR 0x27] @ escapedXPath @ [CHR 0x27] @
             '', document, null, XPathResult.FIRST_ORDERED_NODE_TYPE, null).singleNodeValue'')
        | _ \<Rightarrow> ''('' @ generateSelectorScript (Strategy parsed) (Value parsed) @ '')'')
     else ''('' @ generateSelectorScript (Strategy parsed) (Value parsed) @ '')'')\<close>

definition generateWaitScript :: "string \<Rightarrow> string \<Rightarrow> string" where
  \<open>generateWaitScript selector state =
    (let parsed = ParseSelector selector;
         fes = findElementScript_of parsed
     in
       if state = ''attached'' then
         nl 3 @ ''var element = '' @ fes @ '';'' @
         nl 3 @ ''return element !== null && element !== undefined;'' @
         nl 2
       else if state = ''detached'' then
         nl 3 @ ''var element = '' @ fes @ '';'' @
         nl 3 @ ''return element === null || element === undefined;'' @
         nl 2
       else if state = ''visible'' then
         nl 3 @ ''var element = '' @ fes @ '';'' @
         nl 3 @ ''if (!element) return false;'' @
         nl 3 @ ''if (element.offsetWidth === 0 || element.offsetHeight === 0) return false;'' @
         nl 3 @ ''var style = window.getComputedStyle(element);'' @
         nl 3 @ ''return style.display !== 'none' && style.visibility !== 'hidden' && style.opacity !== '0';'' @
         nl 2
       else if state = ''hidden'' then
         nl 3 @ ''var element = '' @ fes @ '';'' @
         nl 3 @ ''if (!element) return true;'' @
         nl 3 @ ''if (element.offsetWidth === 0 || element.offsetHeight === 0) return true;'' @
         nl 3 @ ''var style = window.getComputedStyle(element);'' @
         nl 3 @ ''return style.display === 'none' || style.visibility === 'hidden' || style.opacity === '0';'' @
         nl 2
       else
         nl 3 @ ''var element = '' @ fes @ '';'' @
         nl 3 @ ''if (!element) return false;'' @
         nl 3 @ ''if (element.offsetWidth === 0 || element.offsetHeight === 0) return false;'' @
         nl 3 @ ''var style = window.getComputedStyle(element);'' @
         nl 3 @ ''return style.display !== 'none' && style.visibility !== 'hidden';'' @
         nl 2)\<close>

section \<open>Dynamic values, errors and the HTTP transport\<close>

text \<open>
  A decoded JSON value, as Go's \<open>interface{}\<close> holds it after \<open>encoding/json\<close>:
  \<open>nil\<close>, \<open>bool\<close>, \<open>float64\<close>, \<open>string\<close>, \<open>[]interface{}\<close> and
  \<open>map[string]interface{}\<close>. An object keeps its members in document order; a map lookup
  sees the last member of a repeated key.
\<close>

datatype json =
    JNull
  | JBool bool
  | JNum real
  | JStr string
  | JArr "json list"
  | JObj "(string \<times> json) list"

definition map_index :: "(string \<times> json) list \<Rightarrow> string \<Rightarrow> json option" where
  "map_index kvs k = map_of (rev kvs) k"

text \<open>
  A Go \<open>error\<close> value is the format string of \<open>fmt.Errorf\<close> with its arguments
  (\<open>%w\<close> wraps another error). Errors of the standard library are values of the same type
  supplied by the environment. A function returning only \<open>error\<close> returns an
  \<open>error option\<close>, \<open>None\<close> for \<open>nil\<close>.
\<close>

datatype error = Errorf string "fmt_arg list"
and fmt_arg = AInt int | AStr string | AErr error | AVal json | AReal real

definition json_decode_error :: error where
  "json_decode_error = Errorf ''json: cannot decode response body'' []"

datatype http_method = GET | POST | DELETE

record http_request =
  req_method :: http_method
  req_url :: string
  req_body :: "json option"

text \<open>
  What \<open>httpClient.Do\<close> gives back: a transport error, or a status code with the body
  (\<open>None\<close> when the body holds no well-formed JSON value).
\<close>

datatype http_result = TransportFailure error | HttpResponse nat "json option"

text \<open>
  The remote end, with \<open>'s\<close> its state: whether \<open>http.NewRequestWithContext\<close> accepts a
  URL (its error otherwise), and the exchange itself, with the milliseconds it takes. A
  cancelled context and the 30-second timeout of the HTTP client show as transport errors.
\<close>

record 's transport =
  new_request_error :: "string \<Rightarrow> error option"
  round_trip :: "'s \<Rightarrow> http_request \<Rightarrow> http_result \<times> nat \<times> 's"

text \<open>
  Everything outside the client that an operation can change: the remote state, the requests
  performed on the transport (oldest first), the clock in milliseconds, the lines written
  with \<open>log.Printf\<close> and \<open>log.Println\<close> (format string and arguments), and the
  lines printed with \<open>fmt.Println\<close>.
\<close>

record 's world =
  remote :: 's
  sent :: "http_request list"
  clock :: nat
  log_lines :: "(string \<times> fmt_arg list) list"
  stdout_lines :: "fmt_arg list list"

record client =
  baseURL :: string
  sessionID :: string

definition Do :: "'s transport \<Rightarrow> http_request \<Rightarrow> 's world \<Rightarrow> http_result \<times> 's world" where
  "Do T req w =
    (case round_trip T (remote w) req of
       (res, dt, s') \<Rightarrow> (res, w\<lparr>remote := s', sent := sent w @ [req], clock := clock w + dt\<rparr>))"

definition Printf :: "string \<Rightarrow> fmt_arg list \<Rightarrow> 's world \<Rightarrow> 's world" where
  "Printf fmt args w = w\<lparr>log_lines := log_lines w @ [(fmt, args)]\<rparr>"

definition Println :: "fmt_arg list \<Rightarrow> 's world \<Rightarrow> 's world" where
  "Println args w = w\<lparr>stdout_lines := stdout_lines w @ [args]\<rparr>"

definition Sleep :: "nat \<Rightarrow> 's world \<Rightarrow> 's world" where
  "Sleep ms w = w\<lparr>clock := clock w + ms\<rparr>"

subsection \<open>Decoding a response body into a typed envelope\<close>

text \<open>
  \<open>json.NewDecoder(resp.Body).Decode(&x)\<close> for \<open>x\<close> a struct with the single field
  \<open>Value T\<close> tagged \<open>json:"value"\<close>. A struct field takes every member whose key equals its
  name up to case (ASCII case folding is modelled), in document order; \<open>null\<close> leaves a
  string or struct as it is; a value of the wrong JSON type is a decode error. The setter
  \<open>f\<close> is the decoding into \<open>T\<close>.
\<close>

definition ascii_lower :: "char \<Rightarrow> char" where
  "ascii_lower ch =
    (case map_of (zip ''ABCDEFGHIJKLMNOPQRSTUVWXYZ'' ''abcdefghijklmnopqrstuvwxyz'') ch of
       None \<Rightarrow> ch
     | Some l \<Rightarrow> l)"

definition key_matches :: "string \<Rightarrow> string \<Rightarrow> bool" where
  "key_matches k name = (map ascii_lower k = map ascii_lower name)"

fun decode_members :: "(json \<Rightarrow> 'a \<Rightarrow> 'a option) \<Rightarrow> string \<Rightarrow> (string \<times> json) list \<Rightarrow> 'a \<Rightarrow> 'a option" where
  "decode_members f name [] a = Some a"
| "decode_members f name ((k, v) # kvs) a =
     (if key_matches k name then
        (case f v a of None \<Rightarrow> None | Some a' \<Rightarrow> decode_members f name kvs a')
      else decode_members f name kvs a)"

definition decode_envelope :: "(json \<Rightarrow> 'a \<Rightarrow> 'a option) \<Rightarrow> 'a \<Rightarrow> json option \<Rightarrow> 'a option" where
  "decode_envelope f zero body =
    (case body of
       None \<Rightarrow> None
     | Some (JObj kvs) \<Rightarrow> decode_members f ''value'' kvs zero
     | Some JNull \<Rightarrow> Some zero
     | Some _ \<Rightarrow> None)"

fun set_string :: "json \<Rightarrow> string \<Rightarrow> string option" where
  "set_string (JStr s) old = Some s"
| "set_string JNull old = Some old"
| "set_string _ old = None"

fun set_any :: "json \<Rightarrow> json \<Rightarrow> json option" where
  "set_any v old = Some v"

text \<open>The message of a protocol error body: \<open>errorBody["value"]["message"]\<close>, a string.\<close>

definition error_message :: "json option \<Rightarrow> string option" where
  "error_message body =
    (case body of
       Some (JObj kvs) \<Rightarrow>
         (case map_index kvs ''value'' of
            Some (JObj v) \<Rightarrow> (case map_index v ''message'' of Some (JStr m) \<Rightarrow> Some m | _ \<Rightarrow> None)
          | _ \<Rightarrow> None)
     | _ \<Rightarrow> None)"

section \<open>Protocol Client (webdriver.go)\<close>

text \<open>
  Every operation tests the session identifier, builds its payload, creates the request,
  performs it and decodes the answer, in this order. A request body is the JSON value that
  \<open>json.Marshal\<close> writes (the keys of a map in sorted order); marshalling cannot fail on
  these payloads, so that branch has no counterpart here.
\<close>

definition ExecuteScript ::
  "'s transport \<Rightarrow> client \<Rightarrow> string \<Rightarrow> json list option \<Rightarrow> 's world \<Rightarrow> (error + json) \<times> 's world" where
  "ExecuteScript T c script args w =
    (if sessionID c = [] then (Inl (Errorf ''no active session'' []), w)
     else
       let args' = (case args of None \<Rightarrow> [] | Some a \<Rightarrow> a);
           payload = JObj [(''args'', JArr args'), (''script'', JStr script)];
           url = baseURL c @ ''/session/'' @ sessionID c @ ''/execute/sync''
       in case new_request_error T url of
            Some e \<Rightarrow> (Inl (Errorf ''failed to create execute script request: %w'' [AErr e]), w)
          | None \<Rightarrow>
              (case Do T \<lparr>req_method = POST, req_url = url, req_body = Some payload\<rparr> w of
                 (TransportFailure e, w') \<Rightarrow>
                   (Inl (Errorf ''failed to execute script: %w'' [AErr e]), w')
               | (HttpResponse status body, w') \<Rightarrow>
                   if status \<noteq> 200 then
                     (case error_message body of
                        Some message \<Rightarrow>
                          (Inl (Errorf ''script execution failed with status %d: %s''
                                  [AInt (int status), AStr message]), w')
                      | None \<Rightarrow>
                          (Inl (Errorf ''script execution failed with status: %d''
                                  [AInt (int status)]), w'))
                   else
                     (case decode_envelope set_any JNull body of
                        None \<Rightarrow>
                          (Inl (Errorf ''failed to decode script response: %w''
                                  [AErr json_decode_error]), w')
                      | Some v \<Rightarrow> (Inr v, w'))))"

section \<open>Wait Engine (webdriver.go)\<close>

text \<open>
  \<open>pollForCondition\<close>: the loop runs while \<open>time.Now()\<close> is before the deadline, 30
  seconds after the start; every pass executes the script, and sleeps 100 ms when the result
  is not \<open>true\<close>.
\<close>

function pollForCondition_loop ::
  "'s transport \<Rightarrow> client \<Rightarrow> string \<Rightarrow> nat \<Rightarrow> 's world \<Rightarrow> error option \<times> 's world" where
  "pollForCondition_loop T c script deadline w =
    (if clock w < deadline then
       (case ExecuteScript T c script None w of
          (Inl err, w') \<Rightarrow>
            (Some (Errorf ''failed to execute condition script: %w'' [AErr err]), w')
        | (Inr result, w') \<Rightarrow>
            if result = JBool True then (None, w')
            else pollForCondition_loop T c script deadline (Sleep 100 w'))
     else (Some (Errorf ''timeout waiting for condition after 30s'' []), w))"
  by pat_completeness auto
termination
proof (relation "measure (\<lambda>(T, c, script, deadline, w). deadline - clock w)", goal_cases)
  case 1
  show ?case by simp
next
  case (2 T c script deadline w x w' result)
  from 2(2) have "clock w \<le> clock w'"
    by (auto simp: ExecuteScript_def Do_def Let_def
          split: if_splits option.splits prod.splits http_result.splits)
  with 2(1) show ?case by (simp add: Sleep_def)
qed

declare pollForCondition_loop.simps [simp del]

definition pollForCondition ::
  "'s transport \<Rightarrow> client \<Rightarrow> string \<Rightarrow> 's world \<Rightarrow> error option \<times> 's world" where
  "pollForCondition T c script w = pollForCondition_loop T c script (clock w + 30000) w"

definition waitForDOMContentLoaded ::
  "'s transport \<Rightarrow> client \<Rightarrow> 's world \<Rightarrow> error option \<times> 's world" where
  "waitForDOMContentLoaded T c w =
    pollForCondition T c
      ''return document.readyState === 'interactive' || document.readyState === 'complete';'' w"

definition waitForNetworkIdle ::
  "'s transport \<Rightarrow> client \<Rightarrow> 's world \<Rightarrow> error option \<times> 's world" where
  "waitForNetworkIdle T c w =
    (case pollForCondition T c ''return document.readyState === 'complete';'' w of
       (Some err, w') \<Rightarrow> (Some err, w')
     | (None, w') \<Rightarrow> (None, Sleep 500 w'))"

text \<open>
  \<open>WaitForSelector\<close> loops over a \<open>select\<close> between the 30-second context and a 100 ms
  ticker. Which case a \<open>select\<close> takes is decided by the Go runtime, the ticker and the
  clock; the model takes the sequence of cases taken as its input, one per pass of the loop.
  The result is \<open>None\<close> while the loop is still blocked in a \<open>select\<close> after the given
  cases, and \<open>Some r\<close> when it has returned \<open>r\<close>.
\<close>

datatype select_case = CtxDone | TickerC

fun WaitForSelector_loop ::
  "'s transport \<Rightarrow> client \<Rightarrow> string \<Rightarrow> string \<Rightarrow> string \<Rightarrow> select_case list \<Rightarrow> 's world \<Rightarrow>
     error option option \<times> 's world" where
  "WaitForSelector_loop T c selector state script [] w = (None, w)"
| "WaitForSelector_loop T c selector state script (CtxDone # cases) w =
     (Some (Some (Errorf ''timeout waiting for selector '%s' to be %s'' [AStr selector, AStr state])),
      w)"
| "WaitForSelector_loop T c selector state script (TickerC # cases) w =
     (case ExecuteScript T c script None w of
        (Inl err, w') \<Rightarrow> WaitForSelector_loop T c selector state script cases w'
      | (Inr result, w') \<Rightarrow>
          if result = JBool True then (Some None, w')
          else WaitForSelector_loop T c selector state script cases w')"

definition WaitForSelector ::
  "'s transport \<Rightarrow> client \<Rightarrow> string \<Rightarrow> string \<Rightarrow> select_case list \<Rightarrow> 's world \<Rightarrow>
     error option option \<times> 's world" where
  "WaitForSelector T c selector state cases w =
    (if sessionID c = [] then (Some (Some (Errorf ''no active session'' [])), w)
     else WaitForSelector_loop T c selector state (generateWaitScript selector state) cases w)"

section \<open>Session and navigation (webdriver.go)\<close>

definition DeleteSession ::
  "'s transport \<Rightarrow> client \<Rightarrow> 's world \<Rightarrow> error option \<times> client \<times> 's world" where
  "DeleteSession T c w =
    (if sessionID c = [] then
       (None, c, Printf ''WARN: attempted to delete session, but no active session exists'' [] w)
     else
       let url = baseURL c @ ''/session/'' @ sessionID c in
       case new_request_error T url of
         Some err \<Rightarrow>
           (None, c, Printf (''WARN: failed to create delete request: %v'' @ nl 0) [AErr err] w)
       | None \<Rightarrow>
           (case Do T \<lparr>req_method = DELETE, req_url = url, req_body = None\<rparr> w of
              (TransportFailure err, w') \<Rightarrow>
                (None, c, Printf (''WARN: failed to delete session: %v'' @ nl 0) [AErr err] w')
            | (HttpResponse status body, w') \<Rightarrow>
                if status \<noteq> 200 then
                  (None, c\<lparr>sessionID := []\<rparr>,
                   Printf (''WARN: session deletion failed with status: %d'' @ nl 0)
                     [AInt (int status)] w')
                else (None, c\<lparr>sessionID := []\<rparr>, w')))"

text \<open>
  \<open>Navigate\<close>: \<open>options\<close> is \<open>None\<close> for a nil pointer and \<open>Some waitUntil\<close> for a
  \<open>NavigateOptions\<close> value.
\<close>

definition Navigate ::
  "'s transport \<Rightarrow> client \<Rightarrow> string \<Rightarrow> string option \<Rightarrow> 's world \<Rightarrow> error option \<times> 's world" where
  "Navigate T c url options w =
    (if sessionID c = [] then (Some (Errorf ''no active session'' []), w)
     else
       let waitUntil = (case options of None \<Rightarrow> ''load'' | Some wu \<Rightarrow> if wu = [] then ''load'' else wu);
           payload = JObj [(''url'', JStr url)];
           target = baseURL c @ ''/session/'' @ sessionID c @ ''/url''
       in case new_request_error T target of
            Some err \<Rightarrow> (Some (Errorf ''failed to create navigate request: %w'' [AErr err]), w)
          | None \<Rightarrow>
              (case Do T \<lparr>req_method = POST, req_url = target, req_body = Some payload\<rparr> w of
                 (TransportFailure err, w') \<Rightarrow>
                   (Some (Errorf ''failed to navigate: %w'' [AErr err]), w')
               | (HttpResponse status body, w') \<Rightarrow>
                   if status \<noteq> 200 then
                     (Some (Errorf ''navigation failed with status: %d'' [AInt (int status)]), w')
                   else if waitUntil = ''load'' then (None, w')
                   else if waitUntil = ''domcontentloaded'' then waitForDOMContentLoaded T c w'
                   else if waitUntil = ''networkidle'' then waitForNetworkIdle T c w'
                   else (Some (Errorf ''invalid waitUntil option: %s'' [AStr waitUntil]), w')))"

section \<open>Element lookup (selectors.go, webdriver.go)\<close>

definition w3c_element_key :: string where
  "w3c_element_key = ''element-6066-11e4-a52e-4f735466cecf''"

text \<open>
  The element reference of a native find response, decoded into the struct with the fields
  \<open>ElementID\<close> (tagged with the W3C key) and \<open>ELEMENT\<close>.
\<close>

record element_fields =
  ElementID :: string
  ELEMENT :: string

definition no_element :: element_fields where
  "no_element = \<lparr>ElementID = [], ELEMENT = []\<rparr>"

fun decode_element_members :: "(string \<times> json) list \<Rightarrow> element_fields \<Rightarrow> element_fields option" where
  "decode_element_members [] r = Some r"
| "decode_element_members ((k, v) # kvs) r =
     (if key_matches k w3c_element_key then
        (case set_string v (ElementID r) of
           None \<Rightarrow> None
         | Some s \<Rightarrow> decode_element_members kvs (r\<lparr>ElementID := s\<rparr>))
      else if key_matches k ''ELEMENT'' then
        (case set_string v (ELEMENT r) of
           None \<Rightarrow> None
         | Some s \<Rightarrow> decode_element_members kvs (r\<lparr>ELEMENT := s\<rparr>))
      else decode_element_members kvs r)"

fun set_element :: "json \<Rightarrow> element_fields \<Rightarrow> element_fields option" where
  "set_element (JObj kvs) r = decode_element_members kvs r"
| "set_element JNull r = Some r"
| "set_element _ r = None"

fun decode_element_array :: "json list \<Rightarrow> element_fields list option" where
  "decode_element_array [] = Some []"
| "decode_element_array (v # vs) =
     (case set_element v no_element of
        None \<Rightarrow> None
      | Some e \<Rightarrow> (case decode_element_array vs of None \<Rightarrow> None | Some es \<Rightarrow> Some (e # es)))"

fun set_element_list :: "json \<Rightarrow> element_fields list \<Rightarrow> element_fields list option" where
  "set_element_list (JArr vs) old = decode_element_array vs"
| "set_element_list JNull old = Some []"
| "set_element_list _ old = None"

text \<open>The value map and message of a protocol error body, as \<open>findElementNative\<close> reads them.\<close>

definition error_detail :: "json option \<Rightarrow> ((string \<times> json) list \<times> string) option" where
  "error_detail body =
    (case body of
       Some (JObj kvs) \<Rightarrow>
         (case map_index kvs ''value'' of
            Some (JObj v) \<Rightarrow> (case map_index v ''message'' of Some (JStr m) \<Rightarrow> Some (v, m) | _ \<Rightarrow> None)
          | _ \<Rightarrow> None)
     | _ \<Rightarrow> None)"

definition findElementNative ::
  "'s transport \<Rightarrow> client \<Rightarrow> string \<Rightarrow> string \<Rightarrow> 's world \<Rightarrow> (error + string) \<times> 's world" where
  "findElementNative T c strategy val w =
    (if sessionID c = [] then (Inl (Errorf ''no active session'' []), w)
     else
       let payload = JObj [(''using'', JStr strategy), (''value'', JStr val)];
           url = baseURL c @ ''/session/'' @ sessionID c @ ''/element''
       in case new_request_error T url of
            Some err \<Rightarrow> (Inl (Errorf ''failed to create find element request: %w'' [AErr err]), w)
          | None \<Rightarrow>
              (case Do T \<lparr>req_method = POST, req_url = url, req_body = Some payload\<rparr> w of
                 (TransportFailure err, w') \<Rightarrow>
                   (Inl (Errorf ''failed to find element: %w'' [AErr err]), w')
               | (HttpResponse status body, w') \<Rightarrow>
                   if status \<noteq> 200 then
                     (case error_detail body of
                        Some (value_map, message) \<Rightarrow>
                          (Inl (Errorf ''find element failed with status %d: strategy=%s, selector=%s, error=%s''
                                  [AInt (int status), AStr strategy, AVal (JObj value_map),
                                   AStr message]), w')
                      | None \<Rightarrow>
                          (Inl (Errorf ''find element failed with status %d: strategy=%s, selector=%s''
                                  [AInt (int status), AStr strategy, AStr val]), w'))
                   else
                     (case decode_envelope set_element no_element body of
                        None \<Rightarrow>
                          (Inl (Errorf ''failed to decode element response: %w''
                                  [AErr json_decode_error]), w')
                      | Some elementResp \<Rightarrow>
                          if ElementID elementResp \<noteq> [] then (Inr (ElementID elementResp), w')
                          else if ELEMENT elementResp \<noteq> [] then (Inr (ELEMENT elementResp), w')
                          else (Inl (Errorf ''element not found'' []), w'))))"

definition findElementCustom ::
  "'s transport \<Rightarrow> client \<Rightarrow> SelectorStrategy \<Rightarrow> string \<Rightarrow> 's world \<Rightarrow> (error + string) \<times> 's world" where
  "findElementCustom T c strategy val w =
    (let script = generateSelectorScript strategy val in
     case ExecuteScript T c script None w of
       (Inl err, w') \<Rightarrow> (Inl (Errorf ''failed to execute selector script: %w'' [AErr err]), w')
     | (Inr result, w') \<Rightarrow>
         if result = JNull then (Inl (Errorf ''element not found'' []), w')
         else
           let w'' = Println [AStr ''Found element:'', AVal result] w' in
           (case result of
              JObj elemMap \<Rightarrow>
                (case map_index elemMap w3c_element_key of
                   Some (JStr elemID) \<Rightarrow> (Inr elemID, w'')
                 | _ \<Rightarrow>
                    (case map_index elemMap ''ELEMENT'' of
                       Some (JStr elemID) \<Rightarrow> (Inr elemID, w'')
                     | _ \<Rightarrow> (Inl (Errorf ''invalid element reference returned'' []), w'')))
            | _ \<Rightarrow> (Inl (Errorf ''invalid element reference returned'' []), w'')))"

definition FindElementWithStrategy ::
  "'s transport \<Rightarrow> client \<Rightarrow> string \<Rightarrow> 's world \<Rightarrow> (error + string) \<times> 's world" where
  "FindElementWithStrategy T c selector w =
    (let parsed = ParseSelector selector in
     if IsNative parsed then findElementNative T c (strategy_string (Strategy parsed)) (Value parsed) w
     else findElementCustom T c (Strategy parsed) (Value parsed) w)"

definition FindElement ::
  "'s transport \<Rightarrow> client \<Rightarrow> string \<Rightarrow> 's world \<Rightarrow> (error + string) \<times> 's world" where
  "FindElement T c selector w = FindElementWithStrategy T c selector w"

definition findAllElementsNative ::
  "'s transport \<Rightarrow> client \<Rightarrow> string \<Rightarrow> string \<Rightarrow> 's world \<Rightarrow> (error + string list) \<times> 's world" where
  "findAllElementsNative T c strategy val w =
    (if sessionID c = [] then (Inl (Errorf ''no active session'' []), w)
     else
       let payload = JObj [(''using'', JStr strategy), (''value'', JStr val)];
           url = baseURL c @ ''/session/'' @ sessionID c @ ''/elements''
       in case new_request_error T url of
            Some err \<Rightarrow> (Inl (Errorf ''failed to create find elements request: %w'' [AErr err]), w)
          | None \<Rightarrow>
              (case Do T \<lparr>req_method = POST, req_url = url, req_body = Some payload\<rparr> w of
                 (TransportFailure err, w') \<Rightarrow>
                   (Inl (Errorf ''failed to find elements: %w'' [AErr err]), w')
               | (HttpResponse status body, w') \<Rightarrow>
                   if status \<noteq> 200 then
                     (Inl (Errorf ''find elements failed with status: %d'' [AInt (int status)]), w')
                   else
                     (case decode_envelope set_element_list [] body of
                        None \<Rightarrow>
                          (Inl (Errorf ''failed to decode elements response: %w''
                                  [AErr json_decode_error]), w')
                      | Some elems \<Rightarrow>
                          (Inr (fold (\<lambda>elem elementIDs.
                                   if ElementID elem \<noteq> [] then elementIDs @ [ElementID elem]
                                   else if ELEMENT elem \<noteq> [] then elementIDs @ [ELEMENT elem]
                                   else elementIDs) elems []), w'))))"

definition findAllElementsCustom ::
  "'s transport \<Rightarrow> client \<Rightarrow> SelectorStrategy \<Rightarrow> string \<Rightarrow> 's world \<Rightarrow>
     (error + string list) \<times> 's world" where
  "findAllElementsCustom T c strategy val w =
    (let script = generateAllSelectorScript strategy val in
     case ExecuteScript T c script None w of
       (Inl err, w') \<Rightarrow> (Inl (Errorf ''failed to execute selector script: %w'' [AErr err]), w')
     | (Inr result, w') \<Rightarrow>
         if result = JNull then (Inr [], w')
         else
           (case result of
              JArr elemArray \<Rightarrow>
                (Inr (fold (\<lambda>elem elementIDs.
                         case elem of
                           JObj elemMap \<Rightarrow>
                             (case map_index elemMap w3c_element_key of
                                Some (JStr elemID) \<Rightarrow> elementIDs @ [elemID]
                              | _ \<Rightarrow>
                                 (case map_index elemMap ''ELEMENT'' of
                                    Some (JStr elemID) \<Rightarrow> elementIDs @ [elemID]
                                  | _ \<Rightarrow> elementIDs))
                         | _ \<Rightarrow> elementIDs) elemArray []), w')
            | _ \<Rightarrow> (Inr [], w')))"

definition FindAllElements ::
  "'s transport \<Rightarrow> client \<Rightarrow> string \<Rightarrow> 's world \<Rightarrow> (error + string list) \<times> 's world" where
  "FindAllElements T c selector w =
    (let parsed = ParseSelector selector in
     if IsNative parsed then
       findAllElementsNative T c (strategy_string (Strategy parsed)) (Value parsed) w
     else findAllElementsCustom T c (Strategy parsed) (Value parsed) w)"

definition FindElements ::
  "'s transport \<Rightarrow> client \<Rightarrow> string \<Rightarrow> 's world \<Rightarrow> (error + nat) \<times> 's world" where
  "FindElements T c selector w =
    (case FindAllElements T c selector w of
       (Inl err, w') \<Rightarrow> (Inl err, w')
     | (Inr elementIDs, w') \<Rightarrow> (Inr (length elementIDs), w'))"

section \<open>Raster images (the image comparison functions)\<close>

text \<open>
  A decoded image is its bounds (the origin is \<open>(0, 0)\<close>, as for every image that
  \<open>png.Decode\<close> or \<open>image.NewRGBA(image.Rect(0, 0, w, h))\<close> gives) and, for every point,
  the four values of \<open>At(x, y).RGBA()\<close>: alpha-premultiplied red, green, blue and alpha, each
  in \<open>[0, 0xffff]\<close>. Outside the bounds \<open>At\<close> gives the zero colour; the loops below stay
  inside the bounds, and \<open>scaleImage\<close> reads outside them only if its float index does.
\<close>

type_synonym rgba64 = "16 word \<times> 16 word \<times> 16 word \<times> 16 word"

record image =
  Dx :: nat
  Dy :: nat
  pixels :: "nat \<Rightarrow> nat \<Rightarrow> rgba64"

definition At :: "image \<Rightarrow> nat \<Rightarrow> nat \<Rightarrow> rgba64" where
  "At img x y = (if x < Dx img \<and> y < Dy img then pixels img x y else (0, 0, 0, 0))"

text \<open>
  An \<open>*image.RGBA\<close> stores 8 bits per channel: \<open>Set\<close> keeps the high byte of each value
  (\<open>color.RGBAModel\<close>), and \<open>RGBA()\<close> reads it back as \<open>v | v << 8\<close>.
\<close>

definition widen8 :: "16 word \<Rightarrow> 16 word" where
  "widen8 v = or (drop_bit 8 v) (push_bit 8 (drop_bit 8 v))"

definition to_RGBA8 :: "rgba64 \<Rightarrow> rgba64" where
  "to_RGBA8 p = (case p of (r, g, b, a) \<Rightarrow> (widen8 r, widen8 g, widen8 b, widen8 a))"

definition NewRGBA :: "nat \<Rightarrow> nat \<Rightarrow> image" where
  "NewRGBA w h = \<lparr>Dx = w, Dy = h, pixels = (\<lambda>x y. (0, 0, 0, 0))\<rparr>"

definition Set_pixel :: "image \<Rightarrow> nat \<Rightarrow> nat \<Rightarrow> rgba64 \<Rightarrow> image" where
  "Set_pixel img x y col =
    (if x < Dx img \<and> y < Dy img then
       img\<lparr>pixels := (pixels img)(x := (pixels img x)(y := to_RGBA8 col))\<rparr>
     else img)"

text \<open>
  The environment of the image functions: the PNG and base64 codecs of the standard library,
  and the index arithmetic of \<open>scaleImage\<close>, which is done in \<open>float64\<close>:
  \<open>float_index x src target\<close> is \<open>int(float64(x) * (float64(src) / float64(target)))\<close>.
\<close>

type_synonym bytes = "8 word list"

record codec =
  png_decode :: "bytes \<Rightarrow> image option"
  png_encode :: "image \<Rightarrow> bytes option"
  base64_decode :: "string \<Rightarrow> bytes option"
  float_index :: "nat \<Rightarrow> nat \<Rightarrow> nat \<Rightarrow> nat"

definition png_error :: error where
  "png_error = Errorf ''png: invalid format'' []"

definition scaleImage :: "codec \<Rightarrow> image \<Rightarrow> nat \<Rightarrow> nat \<Rightarrow> image" where
  "scaleImage K src targetWidth targetHeight =
    (let srcWidth = Dx src; srcHeight = Dy src in
     fold (\<lambda>y dst.
        fold (\<lambda>x dst.
           let srcX = float_index K x srcWidth targetWidth;
               srcY = float_index K y srcHeight targetHeight
           in Set_pixel dst x y (At src srcX srcY))
         [0..<targetWidth] dst)
      [0..<targetHeight] (NewRGBA targetWidth targetHeight))"

text \<open>
  The block that \<open>CompareImages\<close>, \<open>PixelDifferenceCount\<close> and \<open>CreateDiffImage\<close> each
  repeat: when the dimensions differ, the first image is scaled to the second's dimensions if
  it is wider or taller, otherwise the second is scaled to the first's.
\<close>

definition match_dimensions :: "codec \<Rightarrow> image \<Rightarrow> image \<Rightarrow> image \<times> image" where
  "match_dimensions K img1 img2 =
    (if Dx img1 \<noteq> Dx img2 \<or> Dy img1 \<noteq> Dy img2 then
       (if Dx img1 > Dx img2 \<or> Dy img1 > Dy img2 then
          (scaleImage K img1 (Dx img2) (Dy img2), img2)
        else (img1, scaleImage K img2 (Dx img1) (Dy img1)))
     else (img1, img2))"

text \<open>The squared 8-bit channel differences of one pixel, as \<open>float64\<close> (exact: small integers).\<close>

definition channel8 :: "16 word \<Rightarrow> real" where
  "channel8 v = real (unat (drop_bit 8 v))"




text \<open>
  \<open>PixelDifferenceCount\<close>. The channel values are compared as they come from \<open>RGBA()\<close>, in
  \<open>int32\<close>: \<open>int32(r1) - int32(r2)\<close> is the difference of the 32-bit words, and the
  comparison with \<open>int32(threshold)\<close> is signed.
\<close>

definition abs32 :: "32 word \<Rightarrow> 32 word" where
  "abs32 n = (if sint n < 0 then - n else n)"

definition channel_exceeds :: "16 word \<Rightarrow> 16 word \<Rightarrow> 32 word \<Rightarrow> bool" where
  "channel_exceeds v1 v2 threshold =
    (sint (abs32 ((ucast v1 :: 32 word) - ucast v2)) > sint threshold)"

definition pixel_differs :: "rgba64 \<Rightarrow> rgba64 \<Rightarrow> 32 word \<Rightarrow> bool" where
  "pixel_differs p q threshold =
    (case p of (r1, g1, b1, a1) \<Rightarrow> case q of (r2, g2, b2, a2) \<Rightarrow>
       channel_exceeds r1 r2 threshold \<or> channel_exceeds g1 g2 threshold \<or>
       channel_exceeds b1 b2 threshold \<or> channel_exceeds a1 a2 threshold)"

definition differentPixels :: "image \<Rightarrow> image \<Rightarrow> 32 word \<Rightarrow> nat" where
  "differentPixels img1 img2 threshold =
    fold (\<lambda>y n.
       fold (\<lambda>x n. if pixel_differs (At img1 x y) (At img2 x y) threshold then n + 1 else n)
         [0..<Dx img1] n)
     [0..<Dy img1] 0"

definition PixelDifferenceCount :: "codec \<Rightarrow> bytes \<Rightarrow> bytes \<Rightarrow> 32 word \<Rightarrow> error + nat" where
  "PixelDifferenceCount K img1Bytes img2Bytes threshold =
    (case png_decode K img1Bytes of
       None \<Rightarrow> Inl (Errorf ''failed to decode first image: %w'' [AErr png_error])
     | Some img1 \<Rightarrow>
        (case png_decode K img2Bytes of
           None \<Rightarrow> Inl (Errorf ''failed to decode second image: %w'' [AErr png_error])
         | Some img2 \<Rightarrow>
            (case match_dimensions K img1 img2 of
               (img1', img2') \<Rightarrow> Inr (differentPixels img1' img2' threshold))))"


section \<open>Remaining Protocol Client operations (webdriver.go)\<close>

fun set_object_list :: "json \<Rightarrow> json list \<Rightarrow> json list option" where
  "set_object_list (JArr vs) old =
     (if list_all (\<lambda>v. case v of JObj m \<Rightarrow> True | JNull \<Rightarrow> True | _ \<Rightarrow> False) vs then Some vs
      else None)"
| "set_object_list JNull old = Some []"
| "set_object_list _ old = None"

definition GetAllCookies ::
  "'s transport \<Rightarrow> client \<Rightarrow> 's world \<Rightarrow> (error + json list) \<times> 's world" where
  "GetAllCookies T c w =
    (if sessionID c = [] then (Inl (Errorf ''no active session'' []), w)
     else
       let url = baseURL c @ ''/session/'' @ sessionID c @ ''/cookie'' in
       case new_request_error T url of
         Some err \<Rightarrow> (Inl (Errorf ''failed to create request: %w'' [AErr err]), w)
       | None \<Rightarrow>
           (case Do T \<lparr>req_method = GET, req_url = url, req_body = None\<rparr> w of
              (TransportFailure err, w') \<Rightarrow> (Inl (Errorf ''failed to get cookies: %w'' [AErr err]), w')
            | (HttpResponse status body, w') \<Rightarrow>
                if status \<noteq> 200 then
                  (Inl (Errorf ''get cookies failed with status: %d'' [AInt (int status)]), w')
                else
                  (case decode_envelope set_object_list [] body of
                     None \<Rightarrow>
                       (Inl (Errorf ''failed to decode cookies response: %w''
                               [AErr json_decode_error]), w')
                   | Some cookies \<Rightarrow> (Inr cookies, w'))))"

definition SetWindowSize ::
  "'s transport \<Rightarrow> client \<Rightarrow> int \<Rightarrow> int \<Rightarrow> 's world \<Rightarrow> error option \<times> 's world" where
  "SetWindowSize T c width height w =
    (if sessionID c = [] then (Some (Errorf ''no active session'' []), w)
     else
       let payload = JObj [(''height'', JNum (real_of_int height)), (''width'', JNum (real_of_int width))];
           url = baseURL c @ ''/session/'' @ sessionID c @ ''/window/rect''
       in case new_request_error T url of
            Some err \<Rightarrow> (Some (Errorf ''failed to create set window size request: %w'' [AErr err]), w)
          | None \<Rightarrow>
              (case Do T \<lparr>req_method = POST, req_url = url, req_body = Some payload\<rparr> w of
                 (TransportFailure err, w') \<Rightarrow>
                   (Some (Errorf ''failed to set window size: %w'' [AErr err]), w')
               | (HttpResponse status body, w') \<Rightarrow>
                   if status \<noteq> 200 then
                     (Some (Errorf ''set window size failed with status: %d'' [AInt (int status)]), w')
                   else (None, w')))"

record WebDriverSession =
  SessionID :: string
  Capabilities :: "(string \<times> json) list"

fun decode_session_members :: "(string \<times> json) list \<Rightarrow> WebDriverSession \<Rightarrow> WebDriverSession option" where
  "decode_session_members [] r = Some r"
| "decode_session_members ((k, v) # kvs) r =
     (if key_matches k ''sessionId'' then
        (case set_string v (SessionID r) of
           None \<Rightarrow> None
         | Some s \<Rightarrow> decode_session_members kvs (r\<lparr>SessionID := s\<rparr>))
      else if key_matches k ''capabilities'' then
        (case v of
           JObj m \<Rightarrow> decode_session_members kvs (r\<lparr>Capabilities := Capabilities r @ m\<rparr>)
         | JNull \<Rightarrow> decode_session_members kvs (r\<lparr>Capabilities := []\<rparr>)
         | _ \<Rightarrow> None)
      else decode_session_members kvs r)"

fun set_session :: "json \<Rightarrow> WebDriverSession \<Rightarrow> WebDriverSession option" where
  "set_session (JObj kvs) r = decode_session_members kvs r"
| "set_session JNull r = Some r"
| "set_session _ r = None"

definition CreateSession ::
  "'s transport \<Rightarrow> client \<Rightarrow> (string \<times> json) list \<Rightarrow> 's world \<Rightarrow>
     (error + WebDriverSession) \<times> client \<times> 's world" where
  "CreateSession T c capabilities w =
    (let payload = JObj [(''capabilities'', JObj [(''alwaysMatch'', JObj capabilities)])];
         url = baseURL c @ ''/session''
     in case new_request_error T url of
          Some err \<Rightarrow> (Inl (Errorf ''failed to create request: %w'' [AErr err]), c, w)
        | None \<Rightarrow>
            (case Do T \<lparr>req_method = POST, req_url = url, req_body = Some payload\<rparr> w of
               (TransportFailure err, w') \<Rightarrow>
                 (Inl (Errorf ''failed to create session: %w'' [AErr err]), c, w')
             | (HttpResponse status body, w') \<Rightarrow>
                 if status \<noteq> 200 then
                   (Inl (Errorf ''session creation failed with status: %d'' [AInt (int status)]), c, w')
                 else
                   (case decode_envelope set_session \<lparr>SessionID = [], Capabilities = []\<rparr> body of
                      None \<Rightarrow>
                        (Inl (Errorf ''failed to decode session response: %w''
                                [AErr json_decode_error]), c, w')
                    | Some session \<Rightarrow> (Inr session, c\<lparr>sessionID := SessionID session\<rparr>, w'))))"

definition GetCurrentURL ::
  "'s transport \<Rightarrow> client \<Rightarrow> 's world \<Rightarrow> (error + string) \<times> 's world" where
  "GetCurrentURL T c w =
    (if sessionID c = [] then (Inl (Errorf ''no active session'' []), w)
     else
       let url = baseURL c @ ''/session/'' @ sessionID c @ ''/url'' in
       case new_request_error T url of
         Some err \<Rightarrow> (Inl (Errorf ''failed to create get URL request: %w'' [AErr err]), w)
       | None \<Rightarrow>
           (case Do T \<lparr>req_method = GET, req_url = url, req_body = None\<rparr> w of
              (TransportFailure err, w') \<Rightarrow>
                (Inl (Errorf ''failed to get current URL: %w'' [AErr err]), w')
            | (HttpResponse status body, w') \<Rightarrow>
                if status \<noteq> 200 then
                  (Inl (Errorf ''get URL failed with status: %d'' [AInt (int status)]), w')
                else
                  (case decode_envelope set_string [] body of
                     None \<Rightarrow>
                       (Inl (Errorf ''failed to decode URL response: %w'' [AErr json_decode_error]), w')
                   | Some v \<Rightarrow> (Inr v, w'))))"

definition GetTitle ::
  "'s transport \<Rightarrow> client \<Rightarrow> 's world \<Rightarrow> (error + string) \<times> 's world" where
  "GetTitle T c w =
    (if sessionID c = [] then (Inl (Errorf ''no active session'' []), w)
     else
       let url = baseURL c @ ''/session/'' @ sessionID c @ ''/title'' in
       case new_request_error T url of
         Some err \<Rightarrow> (Inl (Errorf ''failed to create get title request: %w'' [AErr err]), w)
       | None \<Rightarrow>
           (case Do T \<lparr>req_method = GET, req_url = url, req_body = None\<rparr> w of
              (TransportFailure err, w') \<Rightarrow> (Inl (Errorf ''failed to get title: %w'' [AErr err]), w')
            | (HttpResponse status body, w') \<Rightarrow>
                if status \<noteq> 200 then
                  (Inl (Errorf ''get title failed with status: %d'' [AInt (int status)]), w')
                else
                  (case decode_envelope set_string [] body of
                     None \<Rightarrow>
                       (Inl (Errorf ''failed to decode title response: %w''
                               [AErr json_decode_error]), w')
                   | Some v \<Rightarrow> (Inr v, w'))))"

definition clickScript :: string where
  \<open>clickScript =
     nl 2 @ ''var element = arguments[0];'' @
     nl 2 @ ''if (!element) {'' @
     nl 3 @ ''return {success: false, error: "Element not found"};'' @
     nl 2 @ ''}'' @
     nl 0 @
     nl 2 @ ''// Get element info'' @
     nl 2 @ ''var info = {'' @
     nl 3 @ ''tagName: element.tagName,'' @
     nl 3 @ ''id: element.id,'' @
     nl 3 @ ''className: element.className,'' @
     nl 3 @ ''text: element.textContent ? element.textContent.substring(0, 50) : "",'' @
     nl 3 @ ''visible: element.offsetWidth > 0 && element.offsetHeight > 0,'' @
     nl 3 @ ''disabled: element.disabled,'' @
     nl 3 @ ''type: element.type'' @
     nl 2 @ ''};'' @
     nl 0 @
     nl 2 @ ''// Scroll into view'' @
     nl 2 @ ''element.scrollIntoView({behavior: 'instant', block: 'center', inline: 'center'});'' @
     nl 0 @
     nl 2 @ ''// Try to click'' @
     nl 2 @ ''try {'' @
     nl 3 @ ''element.click();'' @
     nl 3 @ ''return {success: true, info: info};'' @
     nl 2 @ ''} catch (e) {'' @
     nl 3 @ ''return {success: false, error: e.toString(), info: info};'' @
     nl 2 @ ''}'' @
     nl 1\<close>

definition ClickElement ::
  "'s transport \<Rightarrow> client \<Rightarrow> string \<Rightarrow> 's world \<Rightarrow> error option \<times> 's world" where
  "ClickElement T c elementID w =
    (if sessionID c = [] then (Some (Errorf ''no active session'' []), w)
     else
       let elementRef = JObj [(w3c_element_key, JStr elementID)] in
       case ExecuteScript T c clickScript (Some [elementRef]) w of
         (Inl err, w') \<Rightarrow>
           (Some (Errorf ''failed to click element via JavaScript: %w'' [AErr err]), w')
       | (Inr result, w') \<Rightarrow>
           (case result of
              JObj resultMap \<Rightarrow>
                (case map_index resultMap ''success'' of
                   Some (JBool False) \<Rightarrow>
                     let errorMsg = (case map_index resultMap ''error'' of
                                       Some (JStr errStr) \<Rightarrow> errStr
                                     | _ \<Rightarrow> ''unknown error'');
                         w'' = (case map_index resultMap ''info'' of
                                  Some (JObj info) \<Rightarrow>
                                    Printf ''Click failed. Element info: %+v'' [AVal (JObj info)] w'
                                | _ \<Rightarrow> w')
                     in (Some (Errorf ''click failed: %s'' [AStr errorMsg]), w'')
                 | _ \<Rightarrow>
                     (None,
                      case map_index resultMap ''info'' of
                        Some (JObj info) \<Rightarrow>
                          Printf ''Click succeeded. Element info: %+v'' [AVal (JObj info)] w'
                      | _ \<Rightarrow> w'))
            | _ \<Rightarrow> (None, w')))"

definition SendKeys ::
  "'s transport \<Rightarrow> client \<Rightarrow> string \<Rightarrow> string \<Rightarrow> 's world \<Rightarrow> error option \<times> 's world" where
  "SendKeys T c elementID text w =
    (if sessionID c = [] then (Some (Errorf ''no active session'' []), w)
     else
       let payload = JObj [(''text'', JStr text)];
           url = baseURL c @ ''/session/'' @ sessionID c @ ''/element/'' @ elementID @ ''/value''
       in case new_request_error T url of
            Some err \<Rightarrow> (Some (Errorf ''failed to create send keys request: %w'' [AErr err]), w)
          | None \<Rightarrow>
              (case Do T \<lparr>req_method = POST, req_url = url, req_body = Some payload\<rparr> w of
                 (TransportFailure err, w') \<Rightarrow> (Some (Errorf ''failed to send keys: %w'' [AErr err]), w')
               | (HttpResponse status body, w') \<Rightarrow>
                   if status \<noteq> 200 then
                     (Some (Errorf ''send keys failed with status: %d'' [AInt (int status)]), w')
                   else (None, w')))"

section \<open>Screenshot acquisition (webdriver.go)\<close>

definition base64_error :: error where
  "base64_error = Errorf ''illegal base64 data'' []"

definition takeFullScreenshot ::
  "'s transport \<Rightarrow> codec \<Rightarrow> client \<Rightarrow> 's world \<Rightarrow> (error + bytes) \<times> 's world" where
  "takeFullScreenshot T K c w =
    (let url = baseURL c @ ''/session/'' @ sessionID c @ ''/screenshot'' in
     case new_request_error T url of
       Some err \<Rightarrow> (Inl (Errorf ''failed to create screenshot request: %w'' [AErr err]), w)
     | None \<Rightarrow>
         (case Do T \<lparr>req_method = GET, req_url = url, req_body = None\<rparr> w of
            (TransportFailure err, w') \<Rightarrow>
              (Inl (Errorf ''failed to take screenshot: %w'' [AErr err]), w')
          | (HttpResponse status body, w') \<Rightarrow>
              if status \<noteq> 200 then
                (Inl (Errorf ''screenshot failed with status: %d'' [AInt (int status)]), w')
              else
                (case decode_envelope set_string [] body of
                   None \<Rightarrow>
                     (Inl (Errorf ''failed to decode screenshot response: %w''
                             [AErr json_decode_error]), w')
                 | Some v \<Rightarrow>
                     (case base64_decode K v of
                        None \<Rightarrow>
                          (Inl (Errorf ''failed to decode base64 screenshot: %w''
                                  [AErr base64_error]), w')
                      | Some decoded \<Rightarrow> (Inr decoded, w')))))"

definition decodePNG :: "codec \<Rightarrow> bytes \<Rightarrow> image option" where
  "decodePNG K data =
    (case png_decode K data of
       None \<Rightarrow> None
     | Some img \<Rightarrow>
         Some (fold (\<lambda>y rgba. fold (\<lambda>x rgba. Set_pixel rgba x y (At img x y)) [0..<Dx img] rgba)
                 [0..<Dy img] (NewRGBA (Dx img) (Dy img))))"

definition encodePNG :: "codec \<Rightarrow> image \<Rightarrow> bytes option" where
  "encodePNG K img = png_encode K img"

text \<open>
  \<open>cropImageRect\<close> is only called with the corner \<open>(0, 0)\<close>. For a negative width or
  height \<open>image.Rect\<close> swaps the corners and the loops do not run; the origin of those bounds
  is not modelled.
\<close>

definition cropImageRect :: "image \<Rightarrow> nat \<Rightarrow> nat \<Rightarrow> int \<Rightarrow> int \<Rightarrow> image" where
  "cropImageRect img x y width height =
    fold (\<lambda>dy cropped.
       fold (\<lambda>dx cropped. Set_pixel cropped dx dy (At img (x + dx) (y + dy)))
         [0..<nat width] cropped)
     [0..<nat height] (NewRGBA (nat \<bar>width\<bar>) (nat \<bar>height\<bar>))"

definition cropImage ::
  "codec \<Rightarrow> bytes \<Rightarrow> int \<Rightarrow> int \<Rightarrow> 's world \<Rightarrow> (error + bytes) \<times> 's world" where
  "cropImage K imageData width height w =
    (case decodePNG K imageData of
       None \<Rightarrow> (Inl (Errorf ''failed to decode PNG: %w'' [AErr png_error]), w)
     | Some img \<Rightarrow>
         let imgWidth = int (Dx img);
             imgHeight = int (Dy img);
             w1 = Printf ''Original image: %dx%d, Requested crop: %dx%d''
                    [AInt imgWidth, AInt imgHeight, AInt width, AInt height] w
         in if width \<ge> imgWidth \<and> height \<ge> imgHeight then
              (Inr imageData, Printf ''Requested size >= actual size, returning original'' [] w1)
            else
              let croppedWidth = (if width > imgWidth then imgWidth else width);
                  croppedHeight = (if height > imgHeight then imgHeight else height);
                  w2 = Printf ''Cropping to: %dx%d'' [AInt croppedWidth, AInt croppedHeight] w1;
                  croppedImg = cropImageRect img 0 0 croppedWidth croppedHeight
              in (case encodePNG K croppedImg of
                    None \<Rightarrow> (Inl png_error, w2)
                  | Some data \<Rightarrow> (Inr data, w2)))"

definition viewportScript :: string where
  \<open>viewportScript =
     nl 2 @ ''return {'' @
     nl 3 @ ''width: window.innerWidth,'' @
     nl 3 @ ''height: window.innerHeight,'' @
     nl 3 @ ''devicePixelRatio: window.devicePixelRatio || 1'' @
     nl 2 @ ''};'' @
     nl 1\<close>

text \<open>
  \<open>int(f)\<close> of a \<open>float64\<close> truncates towards zero; the product with the device pixel
  ratio is taken in the reals (\<open>float64\<close> rounding is not modelled).
\<close>

definition go_int :: "real \<Rightarrow> int" where
  "go_int r = (if 0 \<le> r then \<lfloor>r\<rfloor> else \<lceil>r\<rceil>)"

definition TakeScreenshot ::
  "'s transport \<Rightarrow> codec \<Rightarrow> client \<Rightarrow> 's world \<Rightarrow> (error + bytes) \<times> 's world" where
  "TakeScreenshot T K c w =
    (if sessionID c = [] then (Inl (Errorf ''no active session'' []), w)
     else
       case ExecuteScript T c viewportScript (Some []) w of
         (Inl err, w1) \<Rightarrow>
           takeFullScreenshot T K c
             (Printf ''Warning: failed to get viewport dimensions: %v'' [AErr err] w1)
       | (Inr viewportResult, w1) \<Rightarrow>
           (case viewportResult of
              JObj viewport \<Rightarrow>
                let width = (case map_index viewport ''width'' of
                               Some (JNum wd) \<Rightarrow> go_int wd | _ \<Rightarrow> 0);
                    height = (case map_index viewport ''height'' of
                                Some (JNum ht) \<Rightarrow> go_int ht | _ \<Rightarrow> 0);
                    dpr = (case map_index viewport ''devicePixelRatio'' of
                             Some (JNum d) \<Rightarrow> d | _ \<Rightarrow> 1);
                    targetWidth = go_int (real_of_int width * dpr);
                    targetHeight = go_int (real_of_int height * dpr);
                    w2 = Printf ''Viewport: %dx%d, DPR: %.1f, Target size: %dx%d''
                           [AInt width, AInt height, AReal dpr, AInt targetWidth, AInt targetHeight] w1
                in if width = 0 \<or> height = 0 then
                     takeFullScreenshot T K c
                       (Printf ''Warning: invalid viewport dimensions, using full screenshot'' [] w2)
                   else
                     (case takeFullScreenshot T K c w2 of
                        (Inl err, w3) \<Rightarrow> (Inl err, w3)
                      | (Inr fullScreenshot, w3) \<Rightarrow>
                          (case cropImage K fullScreenshot targetWidth targetHeight w3 of
                             (Inl err, w4) \<Rightarrow>
                               (Inr fullScreenshot,
                                Printf ''Warning: failed to crop screenshot: %v, returning full screenshot''
                                  [AErr err] w4)
                           | (Inr croppedScreenshot, w4) \<Rightarrow>
                               (Inr croppedScreenshot,
                                Printf ''Successfully cropped screenshot to %dx%d''
                                  [AInt targetWidth, AInt targetHeight] w4)))
            | _ \<Rightarrow>
                takeFullScreenshot T K c
                  (Printf ''Warning: unexpected viewport result type'' [] w1)))"

section \<open>A stub transport for concrete runs\<close>

text \<open>
  The remote state of the stub is the list of canned results still to be served: every
  exchange takes the next one and one millisecond; with none left the connection is refused.
\<close>

definition stub :: "http_result list transport" where
  "stub =
    \<lparr>new_request_error = (\<lambda>url. None),
     round_trip = (\<lambda>rs req. case rs of
         [] \<Rightarrow> (TransportFailure (Errorf ''connection refused'' []), 1, [])
       | r # rs' \<Rightarrow> (r, 1, rs'))\<rparr>"

definition world0 :: "http_result list \<Rightarrow> http_result list world" where
  "world0 rs = \<lparr>remote = rs, sent = [], clock = 0, log_lines = [], stdout_lines = []\<rparr>"

definition client1 :: client where
  "client1 = \<lparr>baseURL = ''http://localhost:4444'', sessionID = ''S1''\<rparr>"


definition value_response :: "json \<Rightarrow> http_result" where
  "value_response v = HttpResponse 200 (Some (JObj [(''value'', v)]))"

definition client0 :: client where
  "client0 = \<lparr>baseURL = ''http://localhost:4444'', sessionID = []\<rparr>"

text \<open>
  A stub codec: the four bytes \<open>[w, h, hi, lo]\<close> stand for the \<open>w\<close> by \<open>h\<close> image
  whose every channel of every pixel is the 16-bit value \<open>hi * 256 + lo\<close>; like
  \<open>png.Decode\<close> it rejects an image with a zero dimension. The float index is the exact
  quotient.
\<close>

definition solid :: "nat \<Rightarrow> nat \<Rightarrow> rgba64 \<Rightarrow> image" where
  "solid w h col = \<lparr>Dx = w, Dy = h, pixels = (\<lambda>x y. col)\<rparr>"

definition stub_codec :: codec where
  "stub_codec =
    \<lparr>png_decode = (\<lambda>data. case data of
         [w, h, hi, lo] \<Rightarrow>
           if w = 0 \<or> h = 0 then None
           else let v = or (push_bit 8 (ucast hi)) (ucast lo)
                in Some (solid (unat w) (unat h) (v, v, v, v))
       | _ \<Rightarrow> None),
     png_encode = (\<lambda>img. None),
     base64_decode = (\<lambda>s. None),
     float_index = (\<lambda>x src target. x * src div target)\<rparr>"

section \<open>Properties of the Selector Resolver\<close>

lemma HasPrefix_iff_prefix: "HasPrefix s p \<longleftrightarrow> prefix p s"
  unfolding HasPrefix_def prefix_def
  by (metis append_eq_conv_conj append_take_drop_id)

lemma TrimPrefix_prefix: "prefix p s \<Longrightarrow> TrimPrefix s p = drop (length p) s"
  by (simp add: TrimPrefix_def HasPrefix_iff_prefix)

lemma spec_first_match_table_none:
  "\<forall>row \<in> set rows. \<not> prefix (fst row) s \<Longrightarrow>
   spec_first_match rows s = \<lparr>Strategy = StrategyCSSSelector, Value = s, IsNative = True\<rparr>"
  by (induction rows s rule: spec_first_match.induct) auto

lemma ParseSelector_refines_table: "ParseSelector s = spec_first_match spec_prefix_table s"
  unfolding ParseSelector_def spec_prefix_table_def
  by (simp add: HasPrefix_iff_prefix TrimPrefix_prefix)

text \<open>
  Claim C3. For every input string, \<open>ParseSelector\<close> returns the triple of the first
  matching row of the ordered prefix table (prefix stripped, except for the bare XPath forms
  which keep the whole input); a string that matches no row is returned unchanged as a native
  CSS selector.
\<close>

theorem C3_ParseSelector_first_matching_prefix:
  "ParseSelector s = spec_first_match spec_prefix_table s \<and>
   ((\<forall>row \<in> set spec_prefix_table. \<not> prefix (fst row) s) \<longrightarrow>
      ParseSelector s = \<lparr>Strategy = StrategyCSSSelector, Value = s, IsNative = True\<rparr>)"
  using ParseSelector_refines_table [of s] spec_first_match_table_none [of spec_prefix_table s]
  by simp

theorem C3_ParseSelector_witness:
  "ParseSelector ''button.submit'' =
     \<lparr>Strategy = StrategyCSSSelector, Value = ''button.submit'', IsNative = True\<rparr> \<and>
   ParseSelector ''xpath=//div'' = \<lparr>Strategy = StrategyXPath, Value = ''//div'', IsNative = True\<rparr> \<and>
   ParseSelector ''(//a)[1]'' = \<lparr>Strategy = StrategyXPath, Value = ''(//a)[1]'', IsNative = True\<rparr> \<and>
   ParseSelector ''role=button'' = \<lparr>Strategy = StrategyRole, Value = ''button'', IsNative = False\<rparr>"
proof -
  have none: "\<forall>row \<in> set spec_prefix_table. \<not> prefix (fst row) ''button.submit''"
    by (simp add: spec_prefix_table_def)
  have css: "ParseSelector ''button.submit'' =
      \<lparr>Strategy = StrategyCSSSelector, Value = ''button.submit'', IsNative = True\<rparr>"
    using C3_ParseSelector_first_matching_prefix [of "''button.submit''"] none by blast
  have xp: "ParseSelector ''xpath=//div'' =
      \<lparr>Strategy = StrategyXPath, Value = ''//div'', IsNative = True\<rparr>"
    using C3_ParseSelector_first_matching_prefix [of "''xpath=//div''"]
    by (simp add: spec_prefix_table_def)
  have bare: "ParseSelector ''(//a)[1]'' =
      \<lparr>Strategy = StrategyXPath, Value = ''(//a)[1]'', IsNative = True\<rparr>"
    using C3_ParseSelector_first_matching_prefix [of "''(//a)[1]''"]
    by (simp add: spec_prefix_table_def)
  have role: "ParseSelector ''role=button'' =
      \<lparr>Strategy = StrategyRole, Value = ''button'', IsNative = False\<rparr>"
    using C3_ParseSelector_first_matching_prefix [of "''role=button''"]
    by (simp add: spec_prefix_table_def)
  from css xp bare role show ?thesis by blast
qed

section \<open>Script execution against the stub transport\<close>

lemma ExecuteScript_stub_value:
  "sessionID c \<noteq> [] \<Longrightarrow>
   ExecuteScript stub c script args (world0 (value_response v # rs)) =
     (Inr v, \<lparr>remote = rs,
              sent = [\<lparr>req_method = POST,
                      req_url = baseURL c @ ''/session/'' @ sessionID c @ ''/execute/sync'',
                      req_body = Some (JObj [(''args'', JArr (case args of None \<Rightarrow> [] | Some a \<Rightarrow> a)),
                                             (''script'', JStr script)])\<rparr>],
              clock = 1, log_lines = [], stdout_lines = []\<rparr>)"
  by (simp add: ExecuteScript_def stub_def world0_def value_response_def Do_def
      decode_envelope_def key_matches_def)


section \<open>Properties of the Wait Engine\<close>




lemma pollForCondition_loop_errors:
  "fst (pollForCondition_loop T c script deadline w) = Some err \<Longrightarrow>
   (\<exists>e. err = Errorf ''failed to execute condition script: %w'' [AErr e]) \<or>
   err = Errorf ''timeout waiting for condition after 30s'' []"
proof (induction T c script deadline w rule: pollForCondition_loop.induct)
  case (1 T c script deadline w)
  show ?case
  proof (cases "clock w < deadline")
    case False
    with "1.prems" show ?thesis
      by (subst (asm) pollForCondition_loop.simps) simp
  next
    case True
    obtain r w' where ex: "ExecuteScript T c script None w = (r, w')"
      by (cases "ExecuteScript T c script None w")
    show ?thesis
    proof (cases r)
      case (Inl e)
      with True ex "1.prems" show ?thesis
        by (subst (asm) pollForCondition_loop.simps) auto
    next
      case (Inr result)
      show ?thesis
      proof (cases "result = JBool True")
        case True
        with \<open>clock w < deadline\<close> ex Inr "1.prems" show ?thesis
          by (subst (asm) pollForCondition_loop.simps) simp
      next
        case False
        with \<open>clock w < deadline\<close> ex Inr "1.prems"
        have "fst (pollForCondition_loop T c script deadline (Sleep 100 w')) = Some err"
          by (subst (asm) pollForCondition_loop.simps) simp
        with "1.IH" [OF \<open>clock w < deadline\<close> ex [symmetric] Inr False] show ?thesis
          by blast
      qed
    qed
  qed
qed

lemma pollForCondition_errors:
  "fst (pollForCondition T c script w) = Some err \<Longrightarrow>
   (\<exists>e. err = Errorf ''failed to execute condition script: %w'' [AErr e]) \<or>
   err = Errorf ''timeout waiting for condition after 30s'' []"
  unfolding pollForCondition_def by (rule pollForCondition_loop_errors)





section \<open>Properties of the generated wait conditions\<close>

lemma generateWaitScript_default_vs_visible:
  "state \<notin> {''attached'', ''detached'', ''visible'', ''hidden''} \<Longrightarrow>
   \<exists>p. generateWaitScript selector state = p @ '';'' @ nl 2 \<and>
       generateWaitScript selector ''visible'' = p @ '' && style.opacity !== '0';'' @ nl 2"
  by (simp add: generateWaitScript_def Let_def)

lemma generateWaitScript_default_differs:
  "state \<notin> {''attached'', ''detached'', ''visible'', ''hidden''} \<Longrightarrow>
   generateWaitScript selector state \<noteq> generateWaitScript selector ''visible''"
  by (simp add: generateWaitScript_def Let_def nl_def)

text \<open>
  Claim C8 says that an unrecognised state gives exactly the script of the state
  \<open>visible\<close>. The code's default branch, commented \<open>Default to visible\<close>, leaves out the
  \<open>opacity\<close> test: for the selector \<open>#login\<close> and the state \<open>enabled\<close> the two scripts
  differ, and they differ in nothing but the missing \<open>&& style.opacity !== '0'\<close>.
\<close>

theorem C8_unrecognized_state_script_differs_from_visible:
  "generateWaitScript ''#login'' ''enabled'' \<noteq> generateWaitScript ''#login'' ''visible'' \<and>
   (\<exists>p. generateWaitScript ''#login'' ''enabled'' = p @ '';'' @ nl 2 \<and>
        generateWaitScript ''#login'' ''visible'' = p @ '' && style.opacity !== '0';'' @ nl 2)"
  using generateWaitScript_default_differs [of "''enabled''" "''#login''"]
    generateWaitScript_default_vs_visible [of "''enabled''" "''#login''"]
  by simp

section \<open>Properties of navigation and session teardown\<close>

lemma waitForDOMContentLoaded_not_invalid:
  "fst (waitForDOMContentLoaded T c w) \<noteq> Some (Errorf ''invalid waitUntil option: %s'' args)"
  using pollForCondition_errors [of T c _ w "Errorf ''invalid waitUntil option: %s'' args"]
  by (auto simp: waitForDOMContentLoaded_def)

lemma waitForNetworkIdle_not_invalid:
  "fst (waitForNetworkIdle T c w) \<noteq> Some (Errorf ''invalid waitUntil option: %s'' args)"
proof -
  let ?p = "pollForCondition T c ''return document.readyState === 'complete';'' w"
  have "fst ?p \<noteq> Some (Errorf ''invalid waitUntil option: %s'' args)"
    using pollForCondition_errors [of T c _ w "Errorf ''invalid waitUntil option: %s'' args"]
    by auto
  then show ?thesis
    by (cases ?p) (auto simp: waitForNetworkIdle_def split: option.splits)
qed

lemma Navigate_invalid_after_request:
  assumes "fst (Navigate T c url options w) =
             Some (Errorf ''invalid waitUntil option: %s'' [AStr x])"
  shows "sent (snd (Navigate T c url options w)) =
           sent w @ [\<lparr>req_method = POST,
                      req_url = baseURL c @ ''/session/'' @ sessionID c @ ''/url'',
                      req_body = Some (JObj [(''url'', JStr url)])\<rparr>]"
  using assms waitForDOMContentLoaded_not_invalid [of T c _ "[AStr x]"]
    waitForNetworkIdle_not_invalid [of T c _ "[AStr x]"]
  by (auto simp: Navigate_def Let_def Do_def
      split: if_splits option.splits prod.splits http_result.splits)

lemma Navigate_invalid_waitUntil:
  assumes "sessionID c \<noteq> []"
    and "waitUntil \<notin> {[], ''load'', ''domcontentloaded'', ''networkidle''}"
    and "new_request_error T (baseURL c @ ''/session/'' @ sessionID c @ ''/url'') = None"
    and "round_trip T (remote w)
           \<lparr>req_method = POST, req_url = baseURL c @ ''/session/'' @ sessionID c @ ''/url'',
            req_body = Some (JObj [(''url'', JStr url)])\<rparr> = (HttpResponse 200 body, dt, s')"
  shows "Navigate T c url (Some waitUntil) w =
           (Some (Errorf ''invalid waitUntil option: %s'' [AStr waitUntil]),
            w\<lparr>remote := s',
              sent := sent w @ [\<lparr>req_method = POST,
                                 req_url = baseURL c @ ''/session/'' @ sessionID c @ ''/url'',
                                 req_body = Some (JObj [(''url'', JStr url)])\<rparr>],
              clock := clock w + dt\<rparr>)"
  using assms by (simp add: Navigate_def Let_def Do_def)

text \<open>
  Claim C9. \<open>Navigate\<close> with an active session and a \<open>waitUntil\<close> value that is neither
  empty (the empty string stands for \<open>load\<close>) nor one of \<open>load\<close>, \<open>domcontentloaded\<close>,
  \<open>networkidle\<close>: when the request can be built and the remote end answers 200, the navigate
  command has been performed (it is the last request sent, and the remote state is the one
  after the navigation) and only then the invalid-argument error is returned. And whenever
  \<open>Navigate\<close> returns the invalid-argument error at all, the navigate command was sent first.
\<close>

theorem C9_Navigate_invalid_waitUntil_after_request:
  "(sessionID c \<noteq> [] \<longrightarrow>
    waitUntil \<notin> {[], ''load'', ''domcontentloaded'', ''networkidle''} \<longrightarrow>
    new_request_error T (baseURL c @ ''/session/'' @ sessionID c @ ''/url'') = None \<longrightarrow>
    round_trip T (remote w)
       \<lparr>req_method = POST, req_url = baseURL c @ ''/session/'' @ sessionID c @ ''/url'',
        req_body = Some (JObj [(''url'', JStr url)])\<rparr> = (HttpResponse 200 body, dt, s') \<longrightarrow>
    Navigate T c url (Some waitUntil) w =
      (Some (Errorf ''invalid waitUntil option: %s'' [AStr waitUntil]),
       w\<lparr>remote := s',
         sent := sent w @ [\<lparr>req_method = POST,
                            req_url = baseURL c @ ''/session/'' @ sessionID c @ ''/url'',
                            req_body = Some (JObj [(''url'', JStr url)])\<rparr>],
         clock := clock w + dt\<rparr>)) \<and>
   (\<forall>x. fst (Navigate T c url options w) =
          Some (Errorf ''invalid waitUntil option: %s'' [AStr x]) \<longrightarrow>
        sent (snd (Navigate T c url options w)) =
          sent w @ [\<lparr>req_method = POST,
                     req_url = baseURL c @ ''/session/'' @ sessionID c @ ''/url'',
                     req_body = Some (JObj [(''url'', JStr url)])\<rparr>])"
  using Navigate_invalid_waitUntil [of c waitUntil T w url body dt s']
    Navigate_invalid_after_request [of T c url options w]
  by blast

theorem C9_Navigate_witness:
  "Navigate stub client1 ''https://example.com'' (Some ''commit'')
     (world0 [HttpResponse 200 (Some (JObj [(''value'', JNull)]))]) =
     (Some (Errorf ''invalid waitUntil option: %s'' [AStr ''commit'']),
      \<lparr>remote = [],
       sent = [\<lparr>req_method = POST, req_url = ''http://localhost:4444/session/S1/url'',
               req_body = Some (JObj [(''url'', JStr ''https://example.com'')])\<rparr>],
       clock = 1, log_lines = [], stdout_lines = []\<rparr>)"
proof -
  let ?w = "world0 [HttpResponse 200 (Some (JObj [(''value'', JNull)]))]"
  have "sessionID client1 \<noteq> []"
    by (simp add: client1_def)
  moreover have "''commit'' \<notin> {[], ''load'', ''domcontentloaded'', ''networkidle''}"
    by simp
  moreover have
    "new_request_error stub (baseURL client1 @ ''/session/'' @ sessionID client1 @ ''/url'') = None"
    by (simp add: stub_def)
  moreover have "round_trip stub (remote ?w)
       \<lparr>req_method = POST, req_url = baseURL client1 @ ''/session/'' @ sessionID client1 @ ''/url'',
        req_body = Some (JObj [(''url'', JStr ''https://example.com'')])\<rparr> =
       (HttpResponse 200 (Some (JObj [(''value'', JNull)])), 1, [])"
    by (simp add: stub_def world0_def)
  ultimately have "Navigate stub client1 ''https://example.com'' (Some ''commit'') ?w =
      (Some (Errorf ''invalid waitUntil option: %s'' [AStr ''commit'']),
       ?w\<lparr>remote := [],
         sent := sent ?w @ [\<lparr>req_method = POST,
                            req_url = baseURL client1 @ ''/session/'' @ sessionID client1 @ ''/url'',
                            req_body = Some (JObj [(''url'', JStr ''https://example.com'')])\<rparr>],
         clock := clock ?w + 1\<rparr>)"
    using C9_Navigate_invalid_waitUntil_after_request
      [of client1 "''commit''" stub ?w "''https://example.com''"
          "Some (JObj [(''value'', JNull)])" 1 "[]"]
    by blast
  then show ?thesis
    by (simp add: world0_def client1_def)
qed

lemma DeleteSession_never_fails: "fst (DeleteSession T c w) = None"
  by (simp add: DeleteSession_def Let_def split: option.splits prod.splits http_result.splits)

lemma DeleteSession_no_session:
  "sessionID c = [] \<Longrightarrow>
   DeleteSession T c w =
     (None, c, w\<lparr>log_lines := log_lines w @
        [(''WARN: attempted to delete session, but no active session exists'', [])]\<rparr>)"
  by (simp add: DeleteSession_def Printf_def)

lemma DeleteSession_status_clears:
  "sessionID c \<noteq> [] \<Longrightarrow> new_request_error T (baseURL c @ ''/session/'' @ sessionID c) = None \<Longrightarrow>
   round_trip T (remote w)
     \<lparr>req_method = DELETE, req_url = baseURL c @ ''/session/'' @ sessionID c, req_body = None\<rparr> =
     (HttpResponse status body, dt, s') \<Longrightarrow>
   sessionID (fst (snd (DeleteSession T c w))) = []"
  by (simp add: DeleteSession_def Let_def Do_def)

lemma DeleteSession_transport_failure_keeps:
  "sessionID c \<noteq> [] \<Longrightarrow> new_request_error T (baseURL c @ ''/session/'' @ sessionID c) = None \<Longrightarrow>
   round_trip T (remote w)
     \<lparr>req_method = DELETE, req_url = baseURL c @ ''/session/'' @ sessionID c, req_body = None\<rparr> =
     (TransportFailure err, dt, s') \<Longrightarrow>
   fst (snd (DeleteSession T c w)) = c"
  by (simp add: DeleteSession_def Let_def Do_def)

lemma DeleteSession_request_error_keeps:
  "sessionID c \<noteq> [] \<Longrightarrow>
   new_request_error T (baseURL c @ ''/session/'' @ sessionID c) = Some err \<Longrightarrow>
   DeleteSession T c w =
     (None, c, Printf (''WARN: failed to create delete request: %v'' @ nl 0) [AErr err] w)"
  by (simp add: DeleteSession_def Let_def)

text \<open>
  Claim C5 says that after every failed deletion attempt the stored session identifier is
  cleared. \<open>DeleteSession\<close> never returns an error, and a status other than 200 clears the
  identifier; but when the transport fails (here: connection refused) the identifier
  \<open>S1\<close> is still stored after the call, although the DELETE request was attempted and the
  failure was logged. The branch for a request that cannot be built returns the same way.
\<close>

theorem C5_DeleteSession_transport_failure_keeps_session:
  "DeleteSession stub client1 (world0 []) =
     (None, client1,
      \<lparr>remote = [],
       sent = [\<lparr>req_method = DELETE, req_url = ''http://localhost:4444/session/S1'',
               req_body = None\<rparr>],
       clock = 1,
       log_lines = [(''WARN: failed to delete session: %v'' @ nl 0,
                     [AErr (Errorf ''connection refused'' [])])],
       stdout_lines = []\<rparr>) \<and>
   sessionID client1 = ''S1'' \<and>
   sessionID (fst (snd (DeleteSession stub client1 (world0 [HttpResponse 500 None])))) = []"
  by (simp add: DeleteSession_def stub_def client1_def world0_def Do_def Printf_def)

section \<open>Properties of the click result\<close>

lemma ClickElement_result:
  assumes "sessionID c \<noteq> []"
    and "ExecuteScript T c clickScript (Some [JObj [(w3c_element_key, JStr elementID)]]) w =
           (Inr result, w')"
  shows "fst (ClickElement T c elementID w) = None \<longleftrightarrow>
         \<not> (\<exists>m. result = JObj m \<and> map_index m ''success'' = Some (JBool False))"
  using assms
  by (cases result)
     (auto simp: ClickElement_def Let_def split: option.splits json.splits bool.splits)

lemma ClickElement_non_map:
  assumes "sessionID c \<noteq> []"
    and "ExecuteScript T c clickScript (Some [JObj [(w3c_element_key, JStr elementID)]]) w =
           (Inr result, w')"
    and "\<forall>m. result \<noteq> JObj m"
  shows "ClickElement T c elementID w = (None, w')"
  using assms by (cases result) (auto simp: ClickElement_def Let_def)

text \<open>
  Claim C10. With an active session, when the click script executes without a protocol error,
  \<open>ClickElement\<close> returns no error exactly when the decoded result is not a map whose
  \<open>success\<close> member is the boolean \<open>false\<close>: a \<open>null\<close> result and any non-map result
  succeed with nothing logged, and so does a map without a boolean \<open>success\<close> member.
\<close>

theorem C10_ClickElement_success_unless_success_false:
  "sessionID c \<noteq> [] \<longrightarrow>
   ExecuteScript T c clickScript (Some [JObj [(w3c_element_key, JStr elementID)]]) w =
     (Inr result, w') \<longrightarrow>
   (fst (ClickElement T c elementID w) = None \<longleftrightarrow>
      \<not> (\<exists>m. result = JObj m \<and> map_index m ''success'' = Some (JBool False))) \<and>
   (result = JNull \<longrightarrow> ClickElement T c elementID w = (None, w')) \<and>
   ((\<forall>m. result \<noteq> JObj m) \<longrightarrow> ClickElement T c elementID w = (None, w')) \<and>
   (\<forall>m. result = JObj m \<longrightarrow> (\<forall>b. map_index m ''success'' \<noteq> Some (JBool b)) \<longrightarrow>
        fst (ClickElement T c elementID w) = None)"
proof (intro impI)
  assume s: "sessionID c \<noteq> []"
    and e: "ExecuteScript T c clickScript (Some [JObj [(w3c_element_key, JStr elementID)]]) w =
              (Inr result, w')"
  from ClickElement_result [OF s e] ClickElement_non_map [OF s e]
  show "(fst (ClickElement T c elementID w) = None \<longleftrightarrow>
      \<not> (\<exists>m. result = JObj m \<and> map_index m ''success'' = Some (JBool False))) \<and>
   (result = JNull \<longrightarrow> ClickElement T c elementID w = (None, w')) \<and>
   ((\<forall>m. result \<noteq> JObj m) \<longrightarrow> ClickElement T c elementID w = (None, w')) \<and>
   (\<forall>m. result = JObj m \<longrightarrow> (\<forall>b. map_index m ''success'' \<noteq> Some (JBool b)) \<longrightarrow>
        fst (ClickElement T c elementID w) = None)"
    by auto
qed

section \<open>Properties of the Protocol Client\<close>

lemma no_session_operations:
  assumes "sessionID c = []"
  shows "Navigate T c url options w = (Some (Errorf ''no active session'' []), w)"
    and "GetCurrentURL T c w = (Inl (Errorf ''no active session'' []), w)"
    and "GetTitle T c w = (Inl (Errorf ''no active session'' []), w)"
    and "ExecuteScript T c script args w = (Inl (Errorf ''no active session'' []), w)"
    and "findElementNative T c strategy val w = (Inl (Errorf ''no active session'' []), w)"
    and "findAllElementsNative T c strategy val w = (Inl (Errorf ''no active session'' []), w)"
    and "ClickElement T c elementID w = (Some (Errorf ''no active session'' []), w)"
    and "SendKeys T c elementID text w = (Some (Errorf ''no active session'' []), w)"
    and "TakeScreenshot T K c w = (Inl (Errorf ''no active session'' []), w)"
    and "SetWindowSize T c width height w = (Some (Errorf ''no active session'' []), w)"
    and "GetAllCookies T c w = (Inl (Errorf ''no active session'' []), w)"
    and "WaitForSelector T c selector state cases w = (Some (Some (Errorf ''no active session'' [])), w)"
  using assms
  by (simp_all add: Navigate_def GetCurrentURL_def GetTitle_def ExecuteScript_def
      findElementNative_def findAllElementsNative_def ClickElement_def SendKeys_def
      TakeScreenshot_def SetWindowSize_def GetAllCookies_def WaitForSelector_def)

text \<open>
  Claim C2. With an empty session identifier every listed operation of the Protocol Client
  returns the no-active-session error at once and leaves the world as it was: in particular
  the list of requests performed on the transport is unchanged. \<open>FindElement\<close> and
  \<open>FindAllElements\<close> are stated for selectors resolved to a native strategy.
\<close>

theorem C2_no_session_no_request:
  "sessionID c = [] \<longrightarrow>
   Navigate T c url options w = (Some (Errorf ''no active session'' []), w) \<and>
   GetCurrentURL T c w = (Inl (Errorf ''no active session'' []), w) \<and>
   GetTitle T c w = (Inl (Errorf ''no active session'' []), w) \<and>
   ExecuteScript T c script args w = (Inl (Errorf ''no active session'' []), w) \<and>
   (IsNative (ParseSelector selector) \<longrightarrow>
      FindElement T c selector w = (Inl (Errorf ''no active session'' []), w) \<and>
      FindAllElements T c selector w = (Inl (Errorf ''no active session'' []), w)) \<and>
   ClickElement T c elementID w = (Some (Errorf ''no active session'' []), w) \<and>
   SendKeys T c elementID text w = (Some (Errorf ''no active session'' []), w) \<and>
   TakeScreenshot T K c w = (Inl (Errorf ''no active session'' []), w) \<and>
   SetWindowSize T c width height w = (Some (Errorf ''no active session'' []), w) \<and>
   GetAllCookies T c w = (Inl (Errorf ''no active session'' []), w) \<and>
   WaitForSelector T c selector state cases w = (Some (Some (Errorf ''no active session'' [])), w)"
proof
  assume s: "sessionID c = []"
  have find: "IsNative (ParseSelector selector) \<Longrightarrow>
      FindElement T c selector w = (Inl (Errorf ''no active session'' []), w) \<and>
      FindAllElements T c selector w = (Inl (Errorf ''no active session'' []), w)"
    by (simp add: FindElement_def FindElementWithStrategy_def FindAllElements_def Let_def
        no_session_operations(5,6) [OF s])
  show "Navigate T c url options w = (Some (Errorf ''no active session'' []), w) \<and>
   GetCurrentURL T c w = (Inl (Errorf ''no active session'' []), w) \<and>
   GetTitle T c w = (Inl (Errorf ''no active session'' []), w) \<and>
   ExecuteScript T c script args w = (Inl (Errorf ''no active session'' []), w) \<and>
   (IsNative (ParseSelector selector) \<longrightarrow>
      FindElement T c selector w = (Inl (Errorf ''no active session'' []), w) \<and>
      FindAllElements T c selector w = (Inl (Errorf ''no active session'' []), w)) \<and>
   ClickElement T c elementID w = (Some (Errorf ''no active session'' []), w) \<and>
   SendKeys T c elementID text w = (Some (Errorf ''no active session'' []), w) \<and>
   TakeScreenshot T K c w = (Inl (Errorf ''no active session'' []), w) \<and>
   SetWindowSize T c width height w = (Some (Errorf ''no active session'' []), w) \<and>
   GetAllCookies T c w = (Inl (Errorf ''no active session'' []), w) \<and>
   WaitForSelector T c selector state cases w = (Some (Some (Errorf ''no active session'' [])), w)"
    using find by (simp add: no_session_operations [OF s])
qed

theorem C2_witness:
  "sessionID client0 = [] \<and>
   sent (world0 [value_response JNull]) = [] \<and>
   Navigate stub client0 ''https://example.com'' None (world0 [value_response JNull]) =
     (Some (Errorf ''no active session'' []), world0 [value_response JNull]) \<and>
   FindElement stub client0 ''body'' (world0 [value_response JNull]) =
     (Inl (Errorf ''no active session'' []), world0 [value_response JNull]) \<and>
   sent (snd (TakeScreenshot stub stub_codec client0 (world0 [value_response JNull]))) = [] \<and>
   sent (snd (WaitForSelector stub client0 ''body'' ''visible'' [TickerC, CtxDone]
                (world0 [value_response JNull]))) = []"
proof -
  let ?w = "world0 [value_response JNull]"
  have s: "sessionID client0 = []"
    by (simp add: client0_def)
  have e: "sent ?w = []"
    by (simp add: world0_def)
  have n: "IsNative (ParseSelector ''body'')"
    by (simp add: ParseSelector_def HasPrefix_def)
  note all = C2_no_session_no_request
    [of client0 stub "''https://example.com''" None ?w _ _ "''body''" _ _ stub_codec _ _
        "''visible''" "[TickerC, CtxDone]", rule_format, OF s]
  from all n have "Navigate stub client0 ''https://example.com'' None ?w =
     (Some (Errorf ''no active session'' []), ?w)"
    and "FindElement stub client0 ''body'' ?w = (Inl (Errorf ''no active session'' []), ?w)"
    and "TakeScreenshot stub stub_codec client0 ?w = (Inl (Errorf ''no active session'' []), ?w)"
    and "WaitForSelector stub client0 ''body'' ''visible'' [TickerC, CtxDone] ?w =
      (Some (Some (Errorf ''no active session'' [])), ?w)"
    by blast+
  with s e show ?thesis by simp
qed











theorem C10_witness:
  "fst (ClickElement stub client1 ''e1'' (world0 [value_response JNull])) = None \<and>
   fst (ClickElement stub client1 ''e1'' (world0 [value_response (JStr ''clicked'')])) = None \<and>
   fst (ClickElement stub client1 ''e1''
          (world0 [value_response (JObj [(''success'', JStr ''no'')])])) = None \<and>
   fst (ClickElement stub client1 ''e1''
          (world0 [value_response (JObj [(''success'', JBool False)])])) \<noteq> None"
proof -
  have s: "sessionID client1 \<noteq> []"
    by (simp add: client1_def)
  note click = C10_ClickElement_success_unless_success_false
    [rule_format, OF s ExecuteScript_stub_value [OF s]]
  have a: "fst (ClickElement stub client1 ''e1'' (world0 [value_response JNull])) = None"
    using click [of "''e1''" JNull "[]"] by simp
  have b: "fst (ClickElement stub client1 ''e1'' (world0 [value_response (JStr ''clicked'')])) = None"
    using click [of "''e1''" "JStr ''clicked''" "[]"] by simp
  have c: "fst (ClickElement stub client1 ''e1''
          (world0 [value_response (JObj [(''success'', JStr ''no'')])])) = None"
    using click [of "''e1''" "JObj [(''success'', JStr ''no'')]" "[]"]
    by (simp add: map_index_def)
  have d: "fst (ClickElement stub client1 ''e1''
          (world0 [value_response (JObj [(''success'', JBool False)])])) \<noteq> None"
    using click [of "''e1''" "JObj [(''success'', JBool False)]" "[]"]
    by (simp add: map_index_def)
  from a b c d show ?thesis by blast
qed

section \<open>Properties of the image comparison\<close>







lemma uint16_bounds: "0 \<le> uint (v :: 16 word)" "uint (v :: 16 word) < 65536"
  using uint_lt2p [of v] by simp_all

lemma signed_take_bit_31_small:
  "- 65536 < (k :: int) \<Longrightarrow> k < 65536 \<Longrightarrow> signed_take_bit 31 k = k"
  by (rule signed_take_bit_int_eq_self) simp_all

lemma sint_ucast16: "sint (ucast (v :: 16 word) :: 32 word) = uint v"
proof -
  have "uint (ucast v :: 32 word) = uint v"
    by (rule uint_up_ucast) (simp add: is_up)
  moreover have "signed_take_bit 31 (uint v) = uint v"
    using uint16_bounds [of v] by (intro signed_take_bit_31_small) linarith+
  ultimately show ?thesis
    by (simp add: sint_uint)
qed

lemma sint_channel_difference:
  "sint ((ucast (v1 :: 16 word) :: 32 word) - ucast (v2 :: 16 word)) = uint v1 - uint v2"
proof -
  have "sint ((ucast v1 :: 32 word) - ucast v2) = signed_take_bit 31 (uint v1 - uint v2)"
    by (simp add: sint_word_ariths sint_ucast16)
  also have "\<dots> = uint v1 - uint v2"
    using uint16_bounds [of v1] uint16_bounds [of v2]
    by (intro signed_take_bit_31_small) linarith+
  finally show ?thesis .
qed

lemma channel_exceeds_iff:
  "channel_exceeds v1 v2 threshold \<longleftrightarrow> \<bar>uint v1 - uint v2\<bar> > sint threshold"
proof -
  let ?d = "(ucast v1 :: 32 word) - ucast v2"
  have d: "sint ?d = uint v1 - uint v2"
    by (rule sint_channel_difference)
  have "- ?d = (ucast v2 :: 32 word) - ucast v1"
    by simp
  then have m: "sint (- ?d) = uint v2 - uint v1"
    by (simp only: sint_channel_difference)
  show ?thesis
    unfolding channel_exceeds_def abs32_def using d m by auto
qed


lemma Set_pixel_dims [simp]:
  "Dx (Set_pixel d x y col) = Dx d" "Dy (Set_pixel d x y col) = Dy d"
  by (simp_all add: Set_pixel_def)


lemma fold_row_dims [simp]:
  "Dx (fold (\<lambda>x d. Set_pixel d x y (g x)) xs d) = Dx d"
  "Dy (fold (\<lambda>x d. Set_pixel d x y (g x)) xs d) = Dy d"
  by (induction xs arbitrary: d) simp_all


lemma fold_rows_dims [simp]:
  "Dx (fold (\<lambda>y d. fold (\<lambda>x d. Set_pixel d x y (g x y)) xs d) ys d) = Dx d"
  "Dy (fold (\<lambda>y d. fold (\<lambda>x d. Set_pixel d x y (g x y)) xs d) ys d) = Dy d"
  by (induction ys arbitrary: d) simp_all


lemma scaleImage_dims [simp]:
  "Dx (scaleImage K src tw th) = tw" "Dy (scaleImage K src tw th) = th"
  by (simp_all add: scaleImage_def Let_def NewRGBA_def)













lemma match_dimensions_wider_or_taller:
  "Dx img2 < Dx img1 \<or> Dy img2 < Dy img1 \<Longrightarrow>
   match_dimensions K img1 img2 = (scaleImage K img1 (Dx img2) (Dy img2), img2)"
  by (auto simp: match_dimensions_def)





lemma pixel_differs_iff:
  "pixel_differs (r1, g1, b1, a1) (r2, g2, b2, a2) threshold \<longleftrightarrow>
     sint threshold < \<bar>uint r1 - uint r2\<bar> \<or> sint threshold < \<bar>uint g1 - uint g2\<bar> \<or>
     sint threshold < \<bar>uint b1 - uint b2\<bar> \<or> sint threshold < \<bar>uint a1 - uint a2\<bar>"
  by (simp add: pixel_differs_def channel_exceeds_iff)

text \<open>
  Claim C4 says that a pixel is counted iff an 8-bit channel difference exceeds the threshold,
  so that threshold 255 counts nothing and threshold 0 counts the pixels with an 8-bit
  channel difference (the type declarations document the threshold as \<open>0-255\<close>). The code
  compares the 16-bit values of \<open>RGBA()\<close> (lemma \<open>pixel_differs_iff\<close>), unlike
  \<open>CompareImages\<close> and \<open>CreateDiffImage\<close>, which shift them to 8 bits first: a 1 by 1 image of
  channel value 0 against one of channel value 0xffff (8-bit 0 against 255) with threshold 255
  gives the count 1, and two 1 by 1 images with the channel values 0x0100 and 0x01ff, whose
  8-bit channels are both 1, give the count 1 with threshold 0.
\<close>

theorem C4_PixelDifferenceCount_compares_16_bit_values:
  "PixelDifferenceCount stub_codec [1, 1, 0, 0] [1, 1, 255, 255] 255 = Inr 1 \<and>
   PixelDifferenceCount stub_codec [1, 1, 1, 0] [1, 1, 1, 255] 0 = Inr 1 \<and>
   png_decode stub_codec [1, 1, 1, 0] = Some (solid 1 1 (256, 256, 256, 256)) \<and>
   png_decode stub_codec [1, 1, 1, 255] = Some (solid 1 1 (511, 511, 511, 511)) \<and>
   channel8 256 = channel8 511"
  by (simp add: PixelDifferenceCount_def stub_codec_def solid_def match_dimensions_def
      differentPixels_def At_def pixel_differs_def channel_exceeds_def abs32_def channel8_def)

end
